theory Spec2Isabelle
  imports Main "HOL-Library.AList"
begin

section \<open>Python values used by the compiler\<close>

text \<open>
  The exceptions the pipeline can raise. \<open>ParseError\<close> and \<open>UnexpectedEOF\<close> are the
  parser's own classes (parser.py); the others are Python's built-in ones. A
  \<open>ValueError\<close> carries the message of the source's own \<open>raise\<close>; where the
  interpreter raises it (unpacking, \<open>int()\<close>) the message is left empty.
  \<open>OutOfFuel\<close> is not a Python exception: it is the value of a recursive-descent
  function of the model whose recursion budget is used up.
\<close>

datatype token_type =
    TOKEN_WHITESPACE | TOKEN_COMMENT | TOKEN_KEYWORD | TOKEN_NUMBER | TOKEN_STRING
  | TOKEN_IDENTIFIER | TOKEN_LBRACKET | TOKEN_RBRACKET | TOKEN_LCURLYBRACKET
  | TOKEN_RCURLYBRACKET | TOKEN_LSTRAIGHTBRACKET | TOKEN_RSTRAIGHTBRACKET
  | TOKEN_PERIOD | TOKEN_COMMA | TOKEN_EQUAL | TOKEN_GREATERTHAN | TOKEN_LESSTHAN
  | TOKEN_ASSIGN | TOKEN_COLON | TOKEN_SEMICOLON | TOKEN_MINUS | TOKEN_PLUS
  | TOKEN_ASTERISK | TOKEN_UNKNOWN | TOKEN_EMPTY | TOKEN_EOF

text \<open>
  tokens.py, class Token: kind, text and source line. Python's \<open>__eq__\<close> compares the
  kind with a kind constant, which the model writes as \<open>tok_type t = K\<close>.
\<close>

datatype token = Token (tok_type: token_type) (tok_value: string) (tok_line: int)

datatype error =
    ParseError token
  | UnexpectedEOF
  | NotImplementedError
  | KeyError
  | TypeError
  | AssertionError
  | AttributeError
  | IndexError
  | ValueError string
  | OutOfFuel

subsection \<open>Decimal text of integers\<close>

definition digit :: "nat \<Rightarrow> char" where
  "digit d = ''0123456789'' ! d"

function str_nat :: "nat \<Rightarrow> string" where
  "str_nat n = (if n < 10 then [digit n] else str_nat (n div 10) @ [digit (n mod 10)])"
  by pat_completeness auto
termination
  by (relation "measure id") auto

declare str_nat.simps [simp del]

text \<open>Python's \<open>str(i)\<close> and the interpolation \<open>f"{i}"\<close> of an int.\<close>

definition str :: "int \<Rightarrow> string" where
  "str i = (if i < 0 then CHR ''-'' # str_nat (nat (- i)) else str_nat (nat i))"

definition zfill :: "nat \<Rightarrow> string \<Rightarrow> string" where
  "zfill w s = replicate (w - length s) CHR ''0'' @ s"

text \<open>
  The format specification \<open>{number:06d}\<close>: decimal, padded with zeros after the sign
  to a width of at least 6 characters; a longer number is not cut.
\<close>

definition format_06d :: "int \<Rightarrow> string" where
  "format_06d i =
     (if i < 0 then CHR ''-'' # zfill 5 (str_nat (nat (- i))) else zfill 6 (str_nat (nat i)))"

text \<open>Reading a decimal text back, used to show that the format loses nothing.\<close>

definition digit_val :: "char \<Rightarrow> nat" where
  "digit_val c = of_char c - 48"

definition val :: "string \<Rightarrow> nat" where
  "val s = foldl (\<lambda>a c. 10 * a + digit_val c) 0 s"

definition unformat :: "string \<Rightarrow> int" where
  "unformat s = (case s of [] \<Rightarrow> 0 | c # cs \<Rightarrow> if c = CHR ''-'' then - int (val cs) else int (val s))"

section \<open>The intermediate representation (ir.py)\<close>

text \<open>
  An instruction is the Python pair \<open>(opcode, args)\<close>; a constructor is the opcode with
  the members of \<open>args\<close> as the lowering builds them. \<open>IR_PUSH_REFERENCE\<close> holds the
  sequence of positional arguments that \<open>*args\<close> yields in \<open>compile\<close>: a one-element
  tuple \<open>(name,)\<close> is \<open>[name]\<close>, and the bare string that \<open>_generate_identity\<close> stores in
  place of a tuple is one one-character string for each of its characters.
\<close>

datatype ir =
    IR_SET_NAME string
  | IR_PUSH_REFERENCE "string list"
  | IR_MAKE_STRING string
  | IR_MAKE_NUMBER int
  | IR_MAKE_BOOLEAN bool
  | IR_MAKE_FUNCTION "string list" "ir list"
  | IR_CALL_FUNCTION string "ir list"
  | IR_EXTERN string int
  | IR_NOP

section \<open>The code generator (generator.py)\<close>

subsection \<open>Context\<close>

text \<open>
  class Context: \<open>name\<close>, \<open>_variables\<close> (a dict from names to stack offsets, kept in
  insertion order), \<open>_parent\<close> and \<open>_position\<close>.
\<close>

datatype "context" =
  Context (ctx_name: "string option") (ctx_variables: "(string \<times> int) list")
    (ctx_parent: "context option") (ctx_position: int)

text \<open>\<open>Context(name)\<close>: no variables, no parent, position 0.\<close>

definition Context_init :: "string option \<Rightarrow> context option \<Rightarrow> context" where
  "Context_init nm par = Context nm [] par 0"

text \<open>
  The property \<open>variables\<close>. With a parent it evaluates \<open>self.parent.variables\<close>, and a
  Context has the attribute \<open>_parent\<close> but none called \<open>parent\<close>: AttributeError.
\<close>

definition variables :: "context \<Rightarrow> error + (string \<times> int) list" where
  "variables c =
     (case ctx_parent c of
        Some p \<Rightarrow> Inl AttributeError
      | None \<Rightarrow> Inr (ctx_variables c))"

definition child :: "context \<Rightarrow> context" where
  "child c = Context_init None (Some c)"

definition add_variable :: "string \<Rightarrow> context \<Rightarrow> context" where
  "add_variable nm c =
     Context (ctx_name c) (AList.update nm (ctx_position c) (ctx_variables c))
       (ctx_parent c) (ctx_position c)"

definition move_stack_pointer :: "context \<Rightarrow> context" where
  "move_stack_pointer c =
     Context (ctx_name c) (ctx_variables c) (ctx_parent c) (ctx_position c - 8)"

text \<open>
  \<open>get_position\<close>: \<open>self._variables.get(name)\<close>, then \<open>if not position: raise\<close>. The test
  is true for \<open>None\<close> and also for the offset 0.
\<close>

definition get_position :: "context \<Rightarrow> string \<Rightarrow> error + int" where
  "get_position c nm =
     (case map_of (ctx_variables c) nm of
        None \<Rightarrow> Inl (ValueError (''Unknown variable: '' @ nm))
      | Some position \<Rightarrow>
          if position = 0 then Inl (ValueError (''Unknown variable: '' @ nm))
          else Inr position)"

subsection \<open>Generator state\<close>

type_synonym line = "string \<times> string \<times> string"

text \<open>
  class GeneratorX86_64Linux. The dicts \<open>_functions\<close>, \<open>_data\<close> and \<open>_labels\<close> are
  association lists in insertion order; assigning to a key is \<open>AList.update\<close>, which
  replaces the value of a present key in place and appends an absent one.
\<close>

record generator =
  g_global :: string
  g_extern :: "string list"
  g_functions :: "(string \<times> line list) list"
  g_data :: "(string \<times> line) list"
  g_labels :: "(string \<times> int) list"
  g_context :: "context"

definition GeneratorX86_64Linux_init :: generator where
  "GeneratorX86_64Linux_init =
     \<lparr> g_global = ''main'',
       g_extern = [],
       g_functions =
         [(''main'', [('''', ''mov'', ''rbp, rsp'')]),
          (''exit'', [('''', ''mov'', ''rax, 60''),
                      ('''', ''mov'', ''rdi, [rsp+8]''),
                      ('''', ''syscall'', '''')])],
       g_data = [],
       g_labels = [],
       g_context = Context_init (Some ''main'') None \<rparr>"

text \<open>
  A method mutates the generator in place and may raise, so it maps the state to the
  outcome (\<open>Inl\<close> the exception, \<open>Inr ()\<close> a normal return) and the state it leaves.
\<close>

type_synonym effect = "generator \<Rightarrow> (error + unit) \<times> generator"

definition labels_get :: "generator \<Rightarrow> string \<Rightarrow> int" where
  "labels_get g prefix = (case map_of (g_labels g) prefix of None \<Rightarrow> 1 | Some n \<Rightarrow> n)"

text \<open>\<open>_next_label\<close>: returns the label and advances the counter of the prefix.\<close>

definition next_label :: "string \<Rightarrow> generator \<Rightarrow> string \<times> generator" where
  "next_label prefix g =
     (let number = labels_get g prefix;
          label = prefix @ ''_'' @ format_06d number
      in (label, g\<lparr>g_labels := AList.update prefix (number + 1) (g_labels g)\<rparr>))"

text \<open>
  \<open>self._functions[self._context.name].append(line)\<close>: KeyError when the context's
  name is not a key of \<open>_functions\<close> (a child context is named \<open>None\<close>).
\<close>

definition append_line :: "line \<Rightarrow> effect" where
  "append_line l g =
     (case ctx_name (g_context g) of
        None \<Rightarrow> (Inl KeyError, g)
      | Some nm \<Rightarrow>
          (case map_of (g_functions g) nm of
             None \<Rightarrow> (Inl KeyError, g)
           | Some body \<Rightarrow>
               (Inr (), g\<lparr>g_functions := AList.update nm (body @ [l]) (g_functions g)\<rparr>)))"

text \<open>Running methods one after the other; the first exception ends the run.\<close>

fun run :: "effect list \<Rightarrow> effect" where
  "run [] g = (Inr (), g)"
| "run (f # fs) g = (case f g of (Inl e, g') \<Rightarrow> (Inl e, g') | (Inr u, g') \<Rightarrow> run fs g')"

definition ctx_move :: effect where
  "ctx_move g = (Inr (), g\<lparr>g_context := move_stack_pointer (g_context g)\<rparr>)"

text \<open>The lines that \<open>extern\<close> writes to \<open>self._functions[label]\<close>, in its order.\<close>

definition thunk :: "string \<Rightarrow> int \<Rightarrow> line list" where
  "thunk name param_len =
     [('''', ''push'', ''rbp'')]
     @ (if param_len > 0 then [('''', ''push'', ''rdi'')] else [])
     @ (if param_len > 1 then [('''', ''push'', ''rsi'')] else [])
     @ (if param_len > 2 then [('''', ''push'', ''rdx'')] else [])
     @ (if param_len > 3 then [('''', ''push'', ''rcx'')] else [])
     @ [('''', ''mov'', ''rbp, rsp'')]
     @ (if param_len > 0 then [('''', ''mov'', ''rdi, [rbp+'' @ str (16 + 8 * param_len) @ '']'')] else [])
     @ (if param_len > 1 then [('''', ''mov'', ''rsi, [rbp+'' @ str (24 + 8 * param_len) @ '']'')] else [])
     @ (if param_len > 2 then [('''', ''mov'', ''rdx, [rbp+'' @ str (32 + 8 * param_len) @ '']'')] else [])
     @ (if param_len > 3 then [('''', ''mov'', ''rcx, [rbp+'' @ str (40 + 8 * param_len) @ '']'')] else [])
     @ [('''', ''call'', name), ('''', ''mov'', ''rsp, rbp'')]
     @ (if param_len > 3 then [('''', ''pop'', ''rcx'')] else [])
     @ (if param_len > 2 then [('''', ''pop'', ''rdx'')] else [])
     @ (if param_len > 1 then [('''', ''pop'', ''rsi'')] else [])
     @ (if param_len > 0 then [('''', ''pop'', ''rdi'')] else [])
     @ [('''', ''pop'', ''rbp''), ('''', ''ret'', '''')]"

definition extern :: "string \<Rightarrow> int \<Rightarrow> effect" where
  "extern name param_len g =
     (if param_len > 4 then (Inl NotImplementedError, g)
      else if name \<in> set (g_extern g) then (Inr (), g)
      else
        (let (label, g1) = next_label ''f'' g
         in run
              [\<lambda>s. (Inr (), s\<lparr>g_extern := g_extern s @ [name]\<rparr>),
               append_line ('''', ''mov'', ''rax, '' @ label),
               append_line ('''', ''push'', ''rax''),
               \<lambda>s. (Inr (), s\<lparr>g_functions := AList.update label (thunk name param_len) (g_functions s)\<rparr>),
               ctx_move]
              g1))"

definition set_name :: "string \<Rightarrow> effect" where
  "set_name name g = (Inr (), g\<lparr>g_context := add_variable name (g_context g)\<rparr>)"

definition make_number :: "int \<Rightarrow> effect" where
  "make_number v = run [append_line ('''', ''push'', str v), ctx_move]"

text \<open>\<open>self._context.get_position(name)\<close> followed by \<open>assert position <= 0\<close>.\<close>

definition checked_position :: "string \<Rightarrow> generator \<Rightarrow> error + int" where
  "checked_position name g =
     (case get_position (g_context g) name of
        Inl e \<Rightarrow> Inl e
      | Inr position \<Rightarrow> if position \<le> 0 then Inr position else Inl AssertionError)"

definition push_reference :: "string \<Rightarrow> effect" where
  "push_reference name g =
     (case checked_position name g of
        Inl e \<Rightarrow> (Inl e, g)
      | Inr position \<Rightarrow>
          run [append_line ('''', ''mov'', ''rax, [rbp-'' @ str (- position) @ '']''),
               append_line ('''', ''push'', ''rax''),
               ctx_move] g)"

text \<open>
  The part of \<open>make_string\<close> after the call of malloc: three labels, the data entry,
  the copy loop, and the stack offset.
\<close>

definition copy_loop :: "string \<Rightarrow> effect" where
  "copy_loop v g =
     (let string_length = int (length v) + 1;
          (string_label, g1) = next_label ''s'' g;
          (start_label, g2) = next_label ''l'' g1;
          (end_label, g3) = next_label ''e'' g2
      in run
           [\<lambda>s. (Inr (), s\<lparr>g_data := AList.update string_label ('''', ''db'', ''\"'' @ v @ ''\", 0'') (g_data s)\<rparr>),
            append_line ('''', ''mov'', ''rdi, '' @ string_label),
            append_line ('''', ''mov'', ''rcx, '' @ str string_length),
            append_line ('''', ''xor'', ''rbx, rbx''),
            append_line (start_label @ '':'', ''mov'', ''bl, byte [rdi]''),
            append_line ('''', ''mov'', ''byte [rax], bl''),
            append_line ('''', ''inc'', ''rax''),
            append_line ('''', ''inc'', ''rdi''),
            append_line ('''', ''dec'', ''rcx''),
            append_line ('''', ''cmp'', ''rcx, byte 0''),
            append_line ('''', ''je'', end_label),
            append_line ('''', ''jmp'', start_label),
            append_line (end_label @ '':'', '''', ''''),
            ctx_move]
           g3)"

text \<open>
  The rest of \<open>call_function\<close> once \<open>self.compile(args)\<close> has returned; \<open>arg_len\<close> is
  \<open>len(args)\<close>, the number of instructions of the argument code.
\<close>

definition emit_call :: "string \<Rightarrow> int \<Rightarrow> effect" where
  "emit_call name arg_len g =
     (case checked_position name g of
        Inl e \<Rightarrow> (Inl e, g)
      | Inr position \<Rightarrow>
          run [append_line ('''', ''call'', ''[rbp-'' @ str (- position) @ '']''),
               append_line ('''', ''add'', ''rsp, '' @ str (8 * arg_len)),
               append_line ('''', ''push'', ''rax'')] g)"

fun weight :: "ir \<Rightarrow> nat" and weights :: "ir list \<Rightarrow> nat" where
  "weight (IR_CALL_FUNCTION name args) = 2 + weights args"
| "weight (IR_MAKE_STRING v) = 4"
| "weight (IR_SET_NAME name) = 0"
| "weight (IR_PUSH_REFERENCE names) = 0"
| "weight (IR_MAKE_NUMBER v) = 0"
| "weight (IR_MAKE_BOOLEAN b) = 0"
| "weight (IR_MAKE_FUNCTION params body) = 0"
| "weight (IR_EXTERN name n) = 0"
| "weight IR_NOP = 0"
| "weights [] = 0"
| "weights (i # is) = 1 + weight i + weights is"

text \<open>
  \<open>compile\<close> walks the instructions. \<open>dispatch\<close> is the loop body
  \<open>if instr != IR_NOP: methods[instr](*args)\<close>: a KeyError for an opcode the table
  lacks (MAKE_BOOLEAN, MAKE_FUNCTION), and a TypeError when the number of unpacked
  arguments is not the method's. \<open>call_function\<close> compiles
  the argument code and calls; \<open>make_string\<close> declares malloc, binds it, pushes the
  length, and calls it through \<open>call_function("malloc", [(IR_NOP, ())])\<close>.
\<close>

function compile :: "ir list \<Rightarrow> effect"
  and dispatch :: "ir \<Rightarrow> effect"
  and call_function :: "string \<Rightarrow> ir list \<Rightarrow> effect"
  and make_string :: "string \<Rightarrow> effect"
where
  "compile [] g = (Inr (), g)"
| "compile (i # is) g =
     (case dispatch i g of
        (Inl e, g') \<Rightarrow> (Inl e, g')
      | (Inr u, g') \<Rightarrow> compile is g')"
| "dispatch IR_NOP g = (Inr (), g)"
| "dispatch (IR_MAKE_NUMBER v) g = make_number v g"
| "dispatch (IR_EXTERN name param_len) g = extern name param_len g"
| "dispatch (IR_SET_NAME name) g = set_name name g"
| "dispatch (IR_CALL_FUNCTION name args) g = call_function name args g"
| "dispatch (IR_MAKE_STRING v) g = make_string v g"
| "dispatch (IR_PUSH_REFERENCE names) g =
     (case names of [name] \<Rightarrow> push_reference name g | _ \<Rightarrow> (Inl TypeError, g))"
| "dispatch (IR_MAKE_BOOLEAN b) g = (Inl KeyError, g)"
| "dispatch (IR_MAKE_FUNCTION params body) g = (Inl KeyError, g)"
| "call_function name args g =
     (case compile args g of
        (Inl e, g') \<Rightarrow> (Inl e, g')
      | (Inr u, g') \<Rightarrow> emit_call name (int (length args)) g')"
| "make_string v g =
     (case run [extern ''malloc'' 1, set_name ''malloc'', make_number (int (length v) + 1)] g of
        (Inl e, g') \<Rightarrow> (Inl e, g')
      | (Inr u, g') \<Rightarrow>
          (case call_function ''malloc'' [IR_NOP] g' of
             (Inl e, g'') \<Rightarrow> (Inl e, g'')
           | (Inr u, g'') \<Rightarrow> copy_loop v g''))"
  by pat_completeness auto
termination
  by (relation "measure (\<lambda>x. case x of
        Inl (Inl (is, g)) \<Rightarrow> weights is
      | Inl (Inr (i, g)) \<Rightarrow> weight i
      | Inr (Inl (name, args, g)) \<Rightarrow> 1 + weights args
      | Inr (Inr (v, g)) \<Rightarrow> 3)") auto

text \<open>
  The labels that a run of calls of \<open>_next_label\<close> returns, one call for each prefix of
  the list in turn, and the generator after the run.
\<close>

fun next_labels :: "string list \<Rightarrow> generator \<Rightarrow> string list \<times> generator" where
  "next_labels [] g = ([], g)"
| "next_labels (p # ps) g =
     (let (l, g1) = next_label p g; (ls, g2) = next_labels ps g1 in (l # ls, g2))"

section \<open>The syntax tree (ast.py)\<close>

datatype node_type =
    NODE_STATEMENT | NODE_ASSIGNMENT | NODE_IDENTITY | NODE_KEY | NODE_STRING_LITERAL
  | NODE_NUMBER_LITERAL | NODE_FUNCTION_CALL | NODE_FUNCTION | NODE_ARG | NODE_BLOCK
  | NODE_RETURN | NODE_DICTIONARY | NODE_KEY_VALUE | NODE_IMPORT | NODE_FOR
  | NODE_BOOLEAN | NODE_COMPARISON | NODE_EXTERN | NODE_FREE

text \<open>
  class Node is a kind and a content of any shape. The values that occur in a tree are
  tokens, nodes, and Python lists (and the pair of an extern node) of such values.
\<close>

datatype ast = Tok token | Node node_type ast | Lst "ast list"

section \<open>The parser (parser.py)\<close>

text \<open>
  \<open>raise ParseError(token)\<close>: the constructor of ParseError raises UnexpectedEOF in its
  place when the token is of kind TOKEN_EOF.
\<close>

definition raise_ParseError :: "token \<Rightarrow> error" where
  "raise_ParseError t = (if tok_type t = TOKEN_EOF then UnexpectedEOF else ParseError t)"

text \<open>\<open>tokens[0] == TOKEN_KEYWORD and tokens[0].value == v\<close>.\<close>

definition kw :: "token \<Rightarrow> string \<Rightarrow> bool" where
  "kw t v = (tok_type t = TOKEN_KEYWORD \<and> tok_value t = v)"

text \<open>The lookahead test of parse_program and parse_statements.\<close>

definition starts_statement :: "token \<Rightarrow> bool" where
  "starts_statement t =
     (tok_type t \<in> {TOKEN_IDENTIFIER, TOKEN_STRING, TOKEN_NUMBER, TOKEN_LBRACKET,
                     TOKEN_LCURLYBRACKET}
      \<or> (tok_type t = TOKEN_KEYWORD
          \<and> tok_value t \<in> {''return'', ''import'', ''fn'', ''for'', ''True'', ''False'',
                             ''extern'', ''free''}))"

text \<open>
  The lookahead test that parse_statement (first branch), parse_return_cont, parse_args,
  parse_arg, parse_key_values and parse_key_value share.
\<close>

definition starts_expression :: "token \<Rightarrow> bool" where
  "starts_expression t =
     (tok_type t \<in> {TOKEN_STRING, TOKEN_NUMBER, TOKEN_LBRACKET, TOKEN_IDENTIFIER,
                     TOKEN_LCURLYBRACKET}
      \<or> (tok_type t = TOKEN_KEYWORD \<and> tok_value t \<in> {''fn'', ''True'', ''False''}))"

text \<open>The lookahead test of parse_identity_or_function_call and parse_identity_cont.\<close>

definition follows_identity :: "token \<Rightarrow> bool" where
  "follows_identity t =
     (tok_type t \<in> {TOKEN_ASSIGN, TOKEN_RBRACKET, TOKEN_RSTRAIGHTBRACKET, TOKEN_COMMA,
                     TOKEN_SEMICOLON, TOKEN_COLON, TOKEN_RCURLYBRACKET, TOKEN_EQUAL,
                     TOKEN_GREATERTHAN, TOKEN_LESSTHAN})"

text \<open>
  \<open>x = tokens.pop(0)\<close> followed by \<open>if x != K: raise ParseError(x)\<close>; popping from an
  empty list is an IndexError.
\<close>

definition expect :: "token_type \<Rightarrow> token list \<Rightarrow> error + token \<times> token list" where
  "expect k toks =
     (case toks of
        [] \<Rightarrow> Inl IndexError
      | x # rest \<Rightarrow> if tok_type x \<noteq> k then Inl (raise_ParseError x) else Inr (x, rest))"

text \<open>
  The end of each branch of parse_expression:
  \<open>if comparison: return Node(NODE_COMPARISON, [node] + comparison.content)\<close>,
  \<open>else: return node\<close>. Only the empty list is false.
\<close>

definition with_comparison :: "ast \<Rightarrow> ast \<Rightarrow> error + ast" where
  "with_comparison node comparison =
     (case comparison of
        Lst [] \<Rightarrow> Inr node
      | Lst (x # xs) \<Rightarrow> Inl AttributeError
      | Tok t \<Rightarrow> Inl AttributeError
      | Node k (Lst content) \<Rightarrow> Inr (Node NODE_COMPARISON (Lst (node # content)))
      | Node k c \<Rightarrow> Inl TypeError)"

text \<open>parse_extern; after a missing comma it raises with the string token.\<close>

definition parse_extern :: "token list \<Rightarrow> error + ast \<times> token list" where
  "parse_extern toks =
     (case toks of
        [] \<Rightarrow> Inl IndexError
      | t # rest \<Rightarrow>
          if kw t ''extern'' then
            (case expect TOKEN_LBRACKET rest of
               Inl e \<Rightarrow> Inl e
             | Inr (lbracket, rest1) \<Rightarrow>
                 (case expect TOKEN_STRING rest1 of
                    Inl e \<Rightarrow> Inl e
                  | Inr (string, rest2) \<Rightarrow>
                      (case rest2 of
                         [] \<Rightarrow> Inl IndexError
                       | comma # rest3 \<Rightarrow>
                           if tok_type comma \<noteq> TOKEN_COMMA then Inl (raise_ParseError string)
                           else
                             (case expect TOKEN_NUMBER rest3 of
                                Inl e \<Rightarrow> Inl e
                              | Inr (number, rest4) \<Rightarrow>
                                  (case expect TOKEN_RBRACKET rest4 of
                                     Inl e \<Rightarrow> Inl e
                                   | Inr (rbracket, rest5) \<Rightarrow>
                                       Inr (Node NODE_EXTERN (Lst [Tok string, Tok number]),
                                            rest5))))))
          else Inl (raise_ParseError t))"

definition parse_import :: "token list \<Rightarrow> error + ast \<times> token list" where
  "parse_import toks =
     (case toks of
        [] \<Rightarrow> Inl IndexError
      | t # rest \<Rightarrow>
          if kw t ''import'' then
            (case expect TOKEN_STRING rest of
               Inl e \<Rightarrow> Inl e
             | Inr (module, rest1) \<Rightarrow> Inr (Node NODE_IMPORT (Tok module), rest1))
          else Inl (raise_ParseError t))"

definition parse_boolean :: "token list \<Rightarrow> error + ast \<times> token list" where
  "parse_boolean toks =
     (case toks of
        [] \<Rightarrow> Inl IndexError
      | t # rest \<Rightarrow>
          if tok_type t = TOKEN_KEYWORD \<and> tok_value t \<in> {''True'', ''False''}
          then Inr (Node NODE_BOOLEAN (Tok t), rest)
          else Inl (raise_ParseError t))"

definition parse_identity_cont :: "token list \<Rightarrow> error + ast \<times> token list" where
  "parse_identity_cont toks =
     (case toks of
        [] \<Rightarrow> Inl IndexError
      | t # rest \<Rightarrow>
          if follows_identity t then Inr (Node NODE_IDENTITY (Lst []), toks)
          else Inl (raise_ParseError t))"

text \<open>
  The recursive-descent functions call each other through \<open>cls\<close>. In the model \<open>cls\<close> is
  the table of these functions with one unit less of recursion budget, indexed by the
  grammar symbol: \<open>cls S_statement tokens\<close> is \<open>cls.parse_statement(tokens)\<close>. A function
  returns the exception, or its result and the tokens left. A Python list result is a
  \<open>Lst\<close>. Each function starts with \<open>logging.debug("%s", tokens[0])\<close>, an IndexError on an
  empty list.
\<close>

datatype symbol =
    S_statements
  | S_statement
  | S_free
  | S_for
  | S_return_cont
  | S_assignment_or_identity_or_function_call
  | S_assignment_cont
  | S_identity
  | S_keys
  | S_key
  | S_expression
  | S_identity_or_function_call
  | S_function_call_cont
  | S_args
  | S_later_args
  | S_arg
  | S_function
  | S_block
  | S_dictionary
  | S_key_values
  | S_later_key_values
  | S_key_value
  | S_comparison_cont

type_synonym parsed = "error + ast \<times> token list"

type_synonym parser_class = "symbol \<Rightarrow> token list \<Rightarrow> parsed"

text \<open>\<open>[x] + ys\<close>, a TypeError when \<open>ys\<close> is not a list.\<close>

definition prepend :: "ast \<Rightarrow> ast \<Rightarrow> error + ast" where
  "prepend x ys = (case ys of Lst l \<Rightarrow> Inr (Lst (x # l)) | _ \<Rightarrow> Inl TypeError)"

definition parse_statements :: "parser_class \<Rightarrow> token list \<Rightarrow> parsed" where
  "parse_statements cls toks =
     (case toks of
        [] \<Rightarrow> Inl IndexError
      | t # rest \<Rightarrow>
          if starts_statement t then
            (case cls S_statement toks of
               Inl e \<Rightarrow> Inl e
             | Inr (statement, toks1) \<Rightarrow>
                 (case expect TOKEN_SEMICOLON toks1 of
                    Inl e \<Rightarrow> Inl e
                  | Inr (semicolon, toks2) \<Rightarrow>
                      (case cls S_statements toks2 of
                         Inl e \<Rightarrow> Inl e
                       | Inr (statements, toks3) \<Rightarrow>
                           (case prepend (Node NODE_STATEMENT statement) statements of
                              Inl e \<Rightarrow> Inl e
                            | Inr l \<Rightarrow> Inr (l, toks3)))))
          else if tok_type t \<in> {TOKEN_EOF, TOKEN_RCURLYBRACKET} then Inr (Lst [], toks)
          else Inl (raise_ParseError t))"

definition parse_statement :: "parser_class \<Rightarrow> token list \<Rightarrow> parsed" where
  "parse_statement cls toks =
     (case toks of
        [] \<Rightarrow> Inl IndexError
      | t # rest \<Rightarrow>
          if starts_expression t then cls S_expression toks
          else if kw t ''for'' then cls S_for toks
          else if kw t ''return'' then cls S_return_cont rest
          else if kw t ''import'' then parse_import toks
          else if kw t ''free'' then cls S_free toks
          else Inl (raise_ParseError t))"

definition parse_free :: "parser_class \<Rightarrow> token list \<Rightarrow> parsed" where
  "parse_free cls toks =
     (case toks of
        [] \<Rightarrow> Inl IndexError
      | t # rest \<Rightarrow>
          if kw t ''free'' then
            (case expect TOKEN_LBRACKET rest of
               Inl e \<Rightarrow> Inl e
             | Inr (lbracket, toks1) \<Rightarrow>
                 (case cls S_identity toks1 of
                    Inl e \<Rightarrow> Inl e
                  | Inr (identity, toks2) \<Rightarrow>
                      (case expect TOKEN_RBRACKET toks2 of
                         Inl e \<Rightarrow> Inl e
                       | Inr (rbracket, toks3) \<Rightarrow> Inr (Node NODE_FREE identity, toks3))))
          else Inl (raise_ParseError t))"

definition parse_for :: "parser_class \<Rightarrow> token list \<Rightarrow> parsed" where
  "parse_for cls toks =
     (case toks of
        [] \<Rightarrow> Inl IndexError
      | t # rest \<Rightarrow>
          if kw t ''for'' then
            (case cls S_identity rest of
               Inl e \<Rightarrow> Inl e
             | Inr (obj, toks1) \<Rightarrow>
                 (case toks1 of
                    [] \<Rightarrow> Inl IndexError
                  | keyword_in # toks2 \<Rightarrow>
                      if tok_type keyword_in \<noteq> TOKEN_KEYWORD \<or> tok_value keyword_in \<noteq> ''in''
                      then Inl (raise_ParseError keyword_in)
                      else
                        (case cls S_identity toks2 of
                           Inl e \<Rightarrow> Inl e
                         | Inr (iterable, toks3) \<Rightarrow>
                             (case cls S_block toks3 of
                                Inl e \<Rightarrow> Inl e
                              | Inr (block, toks4) \<Rightarrow>
                                  Inr (Node NODE_FOR (Lst [obj, iterable, block]), toks4)))))
          else Inl (raise_ParseError t))"

definition parse_return_cont :: "parser_class \<Rightarrow> token list \<Rightarrow> parsed" where
  "parse_return_cont cls toks =
     (case toks of
        [] \<Rightarrow> Inl IndexError
      | t # rest \<Rightarrow>
          if starts_expression t then
            (case cls S_expression toks of
               Inl e \<Rightarrow> Inl e
             | Inr (expression, toks1) \<Rightarrow> Inr (Node NODE_RETURN expression, toks1))
          else if tok_type t = TOKEN_SEMICOLON then Inr (Node NODE_RETURN (Lst []), toks)
          else Inl (raise_ParseError t))"

definition parse_assignment_or_identity_or_function_call :: "parser_class \<Rightarrow> token list \<Rightarrow> parsed" where
  "parse_assignment_or_identity_or_function_call cls toks =
     (case toks of
        [] \<Rightarrow> Inl IndexError
      | t # rest \<Rightarrow>
          if tok_type t = TOKEN_ASSIGN then cls S_assignment_cont toks
          else if tok_type t \<in> {TOKEN_LBRACKET, TOKEN_RBRACKET, TOKEN_RSTRAIGHTBRACKET,
                  TOKEN_COMMA, TOKEN_SEMICOLON, TOKEN_COLON, TOKEN_RCURLYBRACKET, TOKEN_EQUAL,
                  TOKEN_GREATERTHAN, TOKEN_LESSTHAN}
          then cls S_identity_or_function_call toks
          else Inl (raise_ParseError t))"

definition parse_assignment_cont :: "parser_class \<Rightarrow> token list \<Rightarrow> parsed" where
  "parse_assignment_cont cls toks =
     (case toks of
        [] \<Rightarrow> Inl IndexError
      | t # rest \<Rightarrow>
          if tok_type t = TOKEN_ASSIGN then
            (case cls S_expression rest of
               Inl e \<Rightarrow> Inl e
             | Inr (expression, toks1) \<Rightarrow> Inr (Node NODE_ASSIGNMENT (Lst [expression]), toks1))
          else Inl (raise_ParseError t))"

definition parse_identity :: "parser_class \<Rightarrow> token list \<Rightarrow> parsed" where
  "parse_identity cls toks =
     (case toks of
        [] \<Rightarrow> Inl IndexError
      | t # rest \<Rightarrow>
          if tok_type t = TOKEN_IDENTIFIER then
            (case cls S_keys rest of
               Inl e \<Rightarrow> Inl e
             | Inr (keys, toks1) \<Rightarrow> Inr (Node NODE_IDENTITY (Lst [Tok t, keys]), toks1))
          else Inl (raise_ParseError t))"

definition parse_keys :: "parser_class \<Rightarrow> token list \<Rightarrow> parsed" where
  "parse_keys cls toks =
     (case toks of
        [] \<Rightarrow> Inl IndexError
      | t # rest \<Rightarrow>
          if tok_type t = TOKEN_LSTRAIGHTBRACKET then
            (case cls S_key toks of
               Inl e \<Rightarrow> Inl e
             | Inr (key, toks1) \<Rightarrow>
                 (case cls S_keys toks1 of
                    Inl e \<Rightarrow> Inl e
                  | Inr (keys, toks2) \<Rightarrow>
                      (case prepend (Node NODE_KEY key) keys of
                         Inl e \<Rightarrow> Inl e
                       | Inr l \<Rightarrow> Inr (l, toks2))))
          else if tok_type t \<in> {TOKEN_SEMICOLON, TOKEN_ASSIGN, TOKEN_RBRACKET,
                  TOKEN_RSTRAIGHTBRACKET, TOKEN_LBRACKET, TOKEN_COMMA, TOKEN_COLON,
                  TOKEN_LCURLYBRACKET, TOKEN_RCURLYBRACKET, TOKEN_EQUAL, TOKEN_GREATERTHAN,
                  TOKEN_LESSTHAN}
                \<or> kw t ''in''
          then Inr (Lst [], toks)
          else Inl (raise_ParseError t))"

definition parse_key :: "parser_class \<Rightarrow> token list \<Rightarrow> parsed" where
  "parse_key cls toks =
     (case toks of
        [] \<Rightarrow> Inl IndexError
      | t # rest \<Rightarrow>
          if tok_type t = TOKEN_LSTRAIGHTBRACKET then
            (case cls S_expression rest of
               Inl e \<Rightarrow> Inl e
             | Inr (expression, toks1) \<Rightarrow>
                 (case toks1 of
                    [] \<Rightarrow> Inl IndexError
                  | rstraightbracket # toks2 \<Rightarrow>
                      if tok_type rstraightbracket = TOKEN_RSTRAIGHTBRACKET
                      then Inr (expression, toks2)
                      else Inl AssertionError))
          else Inl (raise_ParseError t))"

definition parse_expression :: "parser_class \<Rightarrow> token list \<Rightarrow> parsed" where
  "parse_expression cls toks =
     (case toks of
        [] \<Rightarrow> Inl IndexError
      | t # rest \<Rightarrow>
          if tok_type t = TOKEN_STRING then
            (case cls S_comparison_cont rest of
               Inl e \<Rightarrow> Inl e
             | Inr (comparison, toks1) \<Rightarrow>
                 (case with_comparison (Node NODE_STRING_LITERAL (Tok t)) comparison of
                    Inl e \<Rightarrow> Inl e
                  | Inr node \<Rightarrow> Inr (node, toks1)))
          else if tok_type t = TOKEN_NUMBER then
            (case cls S_comparison_cont rest of
               Inl e \<Rightarrow> Inl e
             | Inr (comparison, toks1) \<Rightarrow>
                 (case with_comparison (Node NODE_NUMBER_LITERAL (Tok t)) comparison of
                    Inl e \<Rightarrow> Inl e
                  | Inr node \<Rightarrow> Inr (node, toks1)))
          else if tok_type t = TOKEN_IDENTIFIER then
            (case cls S_identity toks of
               Inl e \<Rightarrow> Inl e
             | Inr (identity, toks1) \<Rightarrow>
                 (case cls S_assignment_or_identity_or_function_call toks1 of
                    Inl e \<Rightarrow> Inl e
                  | Inr (node', toks2) \<Rightarrow>
                      (case (identity, node') of
                         (Node k identity_content, Node node_type (Lst content)) \<Rightarrow>
                           (case cls S_comparison_cont toks2 of
                              Inl e \<Rightarrow> Inl e
                            | Inr (comparison, toks3) \<Rightarrow>
                                (case with_comparison
                                        (Node node_type (Lst (identity_content # content)))
                                        comparison of
                                   Inl e \<Rightarrow> Inl e
                                 | Inr node \<Rightarrow> Inr (node, toks3)))
                       | _ \<Rightarrow> Inl TypeError)))
          else if tok_type t = TOKEN_LBRACKET then
            (case cls S_expression rest of
               Inl e \<Rightarrow> Inl e
             | Inr (expression, toks1) \<Rightarrow>
                 (case expect TOKEN_RBRACKET toks1 of
                    Inl e \<Rightarrow> Inl e
                  | Inr (rbracket, toks2) \<Rightarrow>
                      (case cls S_comparison_cont toks2 of
                         Inl e \<Rightarrow> Inl e
                       | Inr (comparison, toks3) \<Rightarrow>
                           (case with_comparison expression comparison of
                              Inl e \<Rightarrow> Inl e
                            | Inr node \<Rightarrow> Inr (node, toks3)))))
          else if kw t ''fn'' then
            (case cls S_function toks of
               Inl e \<Rightarrow> Inl e
             | Inr (node, toks1) \<Rightarrow>
                 (case cls S_comparison_cont toks1 of
                    Inl e \<Rightarrow> Inl e
                  | Inr (comparison, toks2) \<Rightarrow>
                      (case with_comparison node comparison of
                         Inl e \<Rightarrow> Inl e
                       | Inr node' \<Rightarrow> Inr (node', toks2))))
          else if tok_type t = TOKEN_LCURLYBRACKET then
            (case cls S_dictionary toks of
               Inl e \<Rightarrow> Inl e
             | Inr (node, toks1) \<Rightarrow>
                 (case cls S_comparison_cont toks1 of
                    Inl e \<Rightarrow> Inl e
                  | Inr (comparison, toks2) \<Rightarrow>
                      (case with_comparison node comparison of
                         Inl e \<Rightarrow> Inl e
                       | Inr node' \<Rightarrow> Inr (node', toks2))))
          else if tok_type t = TOKEN_KEYWORD \<and> tok_value t \<in> {''True'', ''False''} then
            (case parse_boolean toks of
               Inl e \<Rightarrow> Inl e
             | Inr (node, toks1) \<Rightarrow>
                 (case cls S_comparison_cont toks1 of
                    Inl e \<Rightarrow> Inl e
                  | Inr (comparison, toks2) \<Rightarrow>
                      (case with_comparison node comparison of
                         Inl e \<Rightarrow> Inl e
                       | Inr node' \<Rightarrow> Inr (node', toks2))))
          else if kw t ''extern'' then parse_extern toks
          else Inl (raise_ParseError t))"

definition parse_identity_or_function_call :: "parser_class \<Rightarrow> token list \<Rightarrow> parsed" where
  "parse_identity_or_function_call cls toks =
     (case toks of
        [] \<Rightarrow> Inl IndexError
      | t # rest \<Rightarrow>
          if tok_type t = TOKEN_LBRACKET then cls S_function_call_cont toks
          else if follows_identity t then parse_identity_cont toks
          else Inl (raise_ParseError t))"

definition parse_function_call_cont :: "parser_class \<Rightarrow> token list \<Rightarrow> parsed" where
  "parse_function_call_cont cls toks =
     (case toks of
        [] \<Rightarrow> Inl IndexError
      | t # rest \<Rightarrow>
          if tok_type t = TOKEN_LBRACKET then
            (case cls S_args rest of
               Inl e \<Rightarrow> Inl e
             | Inr (args, toks1) \<Rightarrow>
                 (case expect TOKEN_RBRACKET toks1 of
                    Inl e \<Rightarrow> Inl e
                  | Inr (rbracket, toks2) \<Rightarrow>
                      Inr (Node NODE_FUNCTION_CALL (Lst [args]), toks2)))
          else Inl (raise_ParseError t))"

definition parse_args :: "parser_class \<Rightarrow> token list \<Rightarrow> parsed" where
  "parse_args cls toks =
     (case toks of
        [] \<Rightarrow> Inl IndexError
      | t # rest \<Rightarrow>
          if starts_expression t then
            (case cls S_arg toks of
               Inl e \<Rightarrow> Inl e
             | Inr (arg, toks1) \<Rightarrow>
                 (case cls S_later_args toks1 of
                    Inl e \<Rightarrow> Inl e
                  | Inr (later_args, toks2) \<Rightarrow>
                      (case prepend arg later_args of
                         Inl e \<Rightarrow> Inl e
                       | Inr l \<Rightarrow> Inr (l, toks2))))
          else if tok_type t = TOKEN_RBRACKET then Inr (Lst [], toks)
          else Inl (raise_ParseError t))"

definition parse_later_args :: "parser_class \<Rightarrow> token list \<Rightarrow> parsed" where
  "parse_later_args cls toks =
     (case toks of
        [] \<Rightarrow> Inl IndexError
      | t # rest \<Rightarrow>
          if tok_type t = TOKEN_COMMA then cls S_args rest
          else if tok_type t = TOKEN_RBRACKET then Inr (Lst [], toks)
          else Inl (raise_ParseError t))"

definition parse_arg :: "parser_class \<Rightarrow> token list \<Rightarrow> parsed" where
  "parse_arg cls toks =
     (case toks of
        [] \<Rightarrow> Inl IndexError
      | t # rest \<Rightarrow>
          if starts_expression t then
            (case cls S_expression toks of
               Inl e \<Rightarrow> Inl e
             | Inr (arg, toks1) \<Rightarrow> Inr (Node NODE_ARG arg, toks1))
          else Inl (raise_ParseError t))"

definition parse_function :: "parser_class \<Rightarrow> token list \<Rightarrow> parsed" where
  "parse_function cls toks =
     (case toks of
        [] \<Rightarrow> Inl IndexError
      | t # rest \<Rightarrow>
          if kw t ''fn'' then
            (case expect TOKEN_LBRACKET rest of
               Inl e \<Rightarrow> Inl e
             | Inr (lbracket, toks1) \<Rightarrow>
                 (case cls S_args toks1 of
                    Inl e \<Rightarrow> Inl e
                  | Inr (args, toks2) \<Rightarrow>
                      (case expect TOKEN_RBRACKET toks2 of
                         Inl e \<Rightarrow> Inl e
                       | Inr (rbracket, toks3) \<Rightarrow>
                           (case cls S_block toks3 of
                              Inl e \<Rightarrow> Inl e
                            | Inr (block, toks4) \<Rightarrow>
                                Inr (Node NODE_FUNCTION (Lst [args, block]), toks4)))))
          else Inl (raise_ParseError t))"

definition parse_block :: "parser_class \<Rightarrow> token list \<Rightarrow> parsed" where
  "parse_block cls toks =
     (case toks of
        [] \<Rightarrow> Inl IndexError
      | t # rest \<Rightarrow>
          if tok_type t = TOKEN_LCURLYBRACKET then
            (case cls S_statements rest of
               Inl e \<Rightarrow> Inl e
             | Inr (statements, toks1) \<Rightarrow>
                 (case expect TOKEN_RCURLYBRACKET toks1 of
                    Inl e \<Rightarrow> Inl e
                  | Inr (rcurlybracket, toks2) \<Rightarrow> Inr (Node NODE_BLOCK statements, toks2)))
          else Inl (raise_ParseError t))"

definition parse_dictionary :: "parser_class \<Rightarrow> token list \<Rightarrow> parsed" where
  "parse_dictionary cls toks =
     (case toks of
        [] \<Rightarrow> Inl IndexError
      | t # rest \<Rightarrow>
          if tok_type t = TOKEN_LCURLYBRACKET then
            (case cls S_key_values rest of
               Inl e \<Rightarrow> Inl e
             | Inr (key_values, toks1) \<Rightarrow>
                 (case expect TOKEN_RCURLYBRACKET toks1 of
                    Inl e \<Rightarrow> Inl e
                  | Inr (rcurlybracket, toks2) \<Rightarrow>
                      Inr (Node NODE_DICTIONARY key_values, toks2)))
          else Inl (raise_ParseError t))"

definition parse_key_values :: "parser_class \<Rightarrow> token list \<Rightarrow> parsed" where
  "parse_key_values cls toks =
     (case toks of
        [] \<Rightarrow> Inl IndexError
      | t # rest \<Rightarrow>
          if starts_expression t then
            (case cls S_key_value toks of
               Inl e \<Rightarrow> Inl e
             | Inr (key_value, toks1) \<Rightarrow>
                 (case cls S_later_key_values toks1 of
                    Inl e \<Rightarrow> Inl e
                  | Inr (later_key_values, toks2) \<Rightarrow>
                      (case prepend key_value later_key_values of
                         Inl e \<Rightarrow> Inl e
                       | Inr l \<Rightarrow> Inr (l, toks2))))
          else if tok_type t = TOKEN_RCURLYBRACKET then Inr (Lst [], toks)
          else Inl (raise_ParseError t))"

definition parse_later_key_values :: "parser_class \<Rightarrow> token list \<Rightarrow> parsed" where
  "parse_later_key_values cls toks =
     (case toks of
        [] \<Rightarrow> Inl IndexError
      | t # rest \<Rightarrow>
          if tok_type t = TOKEN_COMMA then cls S_key_values rest
          else if tok_type t = TOKEN_RCURLYBRACKET then Inr (Lst [], toks)
          else Inl (raise_ParseError t))"

definition parse_key_value :: "parser_class \<Rightarrow> token list \<Rightarrow> parsed" where
  "parse_key_value cls toks =
     (case toks of
        [] \<Rightarrow> Inl IndexError
      | t # rest \<Rightarrow>
          if starts_expression t then
            (case cls S_expression toks of
               Inl e \<Rightarrow> Inl e
             | Inr (key, toks1) \<Rightarrow>
                 (case expect TOKEN_COLON toks1 of
                    Inl e \<Rightarrow> Inl e
                  | Inr (colon, toks2) \<Rightarrow>
                      (case cls S_expression toks2 of
                         Inl e \<Rightarrow> Inl e
                       | Inr (val', toks3) \<Rightarrow>
                           Inr (Node NODE_KEY_VALUE (Lst [key, val']), toks3))))
          else Inl (raise_ParseError t))"

definition parse_comparison_cont :: "parser_class \<Rightarrow> token list \<Rightarrow> parsed" where
  "parse_comparison_cont cls toks =
     (case toks of
        [] \<Rightarrow> Inl IndexError
      | t # rest \<Rightarrow>
          if tok_type t \<in> {TOKEN_EQUAL, TOKEN_GREATERTHAN, TOKEN_LESSTHAN} then
            (case cls S_expression rest of
               Inl e \<Rightarrow> Inl e
             | Inr (expression, toks1) \<Rightarrow>
                 Inr (Node NODE_COMPARISON (Lst [Tok t, expression]), toks1))
          else if tok_type t \<in> {TOKEN_ASSIGN, TOKEN_RBRACKET, TOKEN_RSTRAIGHTBRACKET,
                  TOKEN_COMMA, TOKEN_SEMICOLON, TOKEN_COLON, TOKEN_RCURLYBRACKET}
          then Inr (Lst [], toks)
          else Inl (raise_ParseError t))"

text \<open>
  The class with a recursion budget: no call is possible with budget 0, and with budget
  \<open>Suc n\<close> each function runs with the class of budget \<open>n\<close> as its \<open>cls\<close>.
\<close>

primrec Parser :: "nat \<Rightarrow> parser_class" where
  "Parser 0 = (\<lambda>s toks. Inl OutOfFuel)"
| "Parser (Suc n) =
     (\<lambda>s. case s of
         S_statements \<Rightarrow> parse_statements (Parser n)
       | S_statement \<Rightarrow> parse_statement (Parser n)
       | S_free \<Rightarrow> parse_free (Parser n)
       | S_for \<Rightarrow> parse_for (Parser n)
       | S_return_cont \<Rightarrow> parse_return_cont (Parser n)
       | S_assignment_or_identity_or_function_call \<Rightarrow> parse_assignment_or_identity_or_function_call (Parser n)
       | S_assignment_cont \<Rightarrow> parse_assignment_cont (Parser n)
       | S_identity \<Rightarrow> parse_identity (Parser n)
       | S_keys \<Rightarrow> parse_keys (Parser n)
       | S_key \<Rightarrow> parse_key (Parser n)
       | S_expression \<Rightarrow> parse_expression (Parser n)
       | S_identity_or_function_call \<Rightarrow> parse_identity_or_function_call (Parser n)
       | S_function_call_cont \<Rightarrow> parse_function_call_cont (Parser n)
       | S_args \<Rightarrow> parse_args (Parser n)
       | S_later_args \<Rightarrow> parse_later_args (Parser n)
       | S_arg \<Rightarrow> parse_arg (Parser n)
       | S_function \<Rightarrow> parse_function (Parser n)
       | S_block \<Rightarrow> parse_block (Parser n)
       | S_dictionary \<Rightarrow> parse_dictionary (Parser n)
       | S_key_values \<Rightarrow> parse_key_values (Parser n)
       | S_later_key_values \<Rightarrow> parse_later_key_values (Parser n)
       | S_key_value \<Rightarrow> parse_key_value (Parser n)
       | S_comparison_cont \<Rightarrow> parse_comparison_cont (Parser n))"

text \<open>\<open>parse_program\<close>, with the recursion budget of the class it calls into.\<close>

definition parse_program :: "nat \<Rightarrow> token list \<Rightarrow> parsed" where
  "parse_program n toks =
     (case toks of
        [] \<Rightarrow> Inl IndexError
      | t # rest \<Rightarrow>
          if starts_statement t then Parser n S_statements toks
          else Inl (raise_ParseError t))"

text \<open>A Parser object: the token buffer \<open>_tokens\<close> and the public field \<open>ast\<close>.\<close>

record parser =
  p_tokens :: "token list"
  p_ast :: ast

definition Parser_init :: parser where
  "Parser_init = \<lparr> p_tokens = [], p_ast = Lst [] \<rparr>"

definition add_tokens :: "token list \<Rightarrow> parser \<Rightarrow> parser" where
  "add_tokens toks p = p\<lparr>p_tokens := p_tokens p @ toks\<rparr>"

definition reset :: "parser \<Rightarrow> parser" where
  "reset p = p\<lparr>p_tokens := []\<rparr>"

definition line_range :: "parser \<Rightarrow> int \<times> int" where
  "line_range p =
     (if p_tokens p \<noteq> [] then (tok_line (hd (p_tokens p)), tok_line (last (p_tokens p)))
      else (0, 0))"

text \<open>
  \<open>parse\<close>: the buffer with the end-of-input token appended is parsed as a program;
  \<open>tokens.pop()\<close> then takes the last token left and compares its kind with TOKEN_EOF.
  An exception leaves the parser as it was; so does the result False.
\<close>

definition parse :: "nat \<Rightarrow> parser \<Rightarrow> (error + bool) \<times> parser" where
  "parse n p =
     (let tokens = p_tokens p @ [Token TOKEN_EOF ''$'' (snd (line_range p))]
      in case parse_program n tokens of
           Inl e \<Rightarrow> (Inl e, p)
         | Inr (ast, rest) \<Rightarrow>
             if rest = [] then (Inl IndexError, p)
             else if tok_type (last rest) = TOKEN_EOF then (Inr True, reset (p\<lparr>p_ast := ast\<rparr>))
             else (Inr False, p))"

section \<open>Lowering to the intermediate representation (ir.py)\<close>

subsection \<open>Python operations on tree values\<close>

text \<open>\<open>x == NODE_K\<close>: true for a node of that kind only.\<close>

definition is_node :: "node_type \<Rightarrow> ast \<Rightarrow> bool" where
  "is_node k x = (case x of Node k' c \<Rightarrow> k' = k | _ \<Rightarrow> False)"

text \<open>\<open>x.content\<close>: only a Node has the attribute.\<close>

definition content_of :: "ast \<Rightarrow> error + ast" where
  "content_of x = (case x of Node k c \<Rightarrow> Inr c | _ \<Rightarrow> Inl AttributeError)"

text \<open>\<open>x.value\<close>: only a Token has the attribute.\<close>

definition value_of :: "ast \<Rightarrow> error + string" where
  "value_of x = (case x of Tok t \<Rightarrow> Inr (tok_value t) | _ \<Rightarrow> Inl AttributeError)"

text \<open>
  \<open>a, b = x\<close>: a list of two members; a list of another length is a ValueError, a Token
  or a Node cannot be unpacked (TypeError).
\<close>

definition unpack2 :: "ast \<Rightarrow> error + ast \<times> ast" where
  "unpack2 x =
     (case x of
        Lst [a, b] \<Rightarrow> Inr (a, b)
      | Lst l \<Rightarrow> Inl (ValueError [])
      | _ \<Rightarrow> Inl TypeError)"

text \<open>\<open>x[0]\<close>.\<close>

definition index0 :: "ast \<Rightarrow> error + ast" where
  "index0 x =
     (case x of
        Lst [] \<Rightarrow> Inl IndexError
      | Lst (a # l) \<Rightarrow> Inr a
      | _ \<Rightarrow> Inl TypeError)"

text \<open>\<open>for a in x\<close>: the members of a list; a Token or a Node is not iterable.\<close>

definition iterate :: "ast \<Rightarrow> error + ast list" where
  "iterate x = (case x of Lst l \<Rightarrow> Inr l | _ \<Rightarrow> Inl TypeError)"

text \<open>\<open>if x\<close>: only the empty list is false among the values of a tree.\<close>

definition truthy :: "ast \<Rightarrow> bool" where
  "truthy x = (x \<noteq> Lst [])"

text \<open>
  \<open>_remove_quotes\<close>: \<open>s[0]\<close> of the empty string is an IndexError; the assertion wants a
  quote character at both ends; the result is \<open>s[1:-1]\<close>.
\<close>

definition remove_quotes :: "string \<Rightarrow> error + string" where
  "remove_quotes s =
     (if s = [] then Inl IndexError
      else if hd s \<in> {CHR 0x27, CHR 0x22} \<and> last s \<in> {CHR 0x27, CHR 0x22}
      then Inr (butlast (tl s))
      else Inl AssertionError)"

text \<open>
  \<open>int(s)\<close>, base 10, on a text of 8-bit characters. Python strips white space from both
  ends (tab, line feed, vertical tab, form feed, carriage return, space, and the Latin-1
  characters 0x85 and 0xA0), takes one sign, and wants what is left to be runs of the
  digits 0 to 9 joined by single underscores. A text with more than 4300 digits is
  refused: the interpreter's default limit for the conversion of a decimal text
  (\<open>sys.int_max_str_digits\<close>), which counts every digit, leading zeros too, and neither
  the sign nor the underscores. Every refusal is a ValueError.
\<close>

definition int_space :: "char \<Rightarrow> bool" where
  "int_space c =
     (c \<in> {CHR 0x09, CHR 0x0A, CHR 0x0B, CHR 0x0C, CHR 0x0D, CHR 0x20, CHR 0x85, CHR 0xA0})"

definition strip_space :: "string \<Rightarrow> string" where
  "strip_space s = rev (dropWhile int_space (rev (dropWhile int_space s)))"

definition decimal_digit :: "char \<Rightarrow> bool" where
  "decimal_digit c = (c \<in> set ''0123456789'')"

fun grouped_digits :: "string \<Rightarrow> bool" where
  "grouped_digits [] = False"
| "grouped_digits [c] = decimal_digit c"
| "grouped_digits (c # d # s) =
     (decimal_digit c \<and> (if d = CHR ''_'' then grouped_digits s else grouped_digits (d # s)))"

definition int_max_str_digits :: nat where
  "int_max_str_digits = 4300"

definition py_int :: "string \<Rightarrow> error + int" where
  "py_int s =
     (let t = strip_space s;
          signed = (t \<noteq> [] \<and> hd t \<in> {CHR ''-'', CHR ''+''});
          body = (if signed then tl t else t);
          ds = filter (\<lambda>c. c \<noteq> CHR ''_'') body
      in if grouped_digits body \<and> length ds \<le> int_max_str_digits
         then Inr (if signed \<and> hd t = CHR ''-'' then - int (val ds) else int (val ds))
         else Inl (ValueError []))"

subsection \<open>IRGenerator\<close>

text \<open>
  The methods call each other through \<open>self\<close>. In the model \<open>self\<close> is the table of the
  recursive methods with one unit less of recursion budget: \<open>self G_expression node\<close> is
  \<open>self._generate_expression(node)\<close>. The methods that call no other method are plain
  functions.
\<close>

datatype gsym = G_program | G_statement | G_assignment | G_expression | G_function
  | G_function_call

type_synonym lowered = "error + ir list"

type_synonym ir_generator = "gsym \<Rightarrow> ast \<Rightarrow> lowered"

definition generate_identity :: "ast \<Rightarrow> lowered" where
  "generate_identity node =
     (case content_of node of
        Inl e \<Rightarrow> Inl e
      | Inr c \<Rightarrow>
          (case index0 c of
             Inl e \<Rightarrow> Inl e
           | Inr first \<Rightarrow>
               (case unpack2 first of
                  Inl e \<Rightarrow> Inl e
                | Inr (identity_token, keys_tokens) \<Rightarrow>
                    if truthy keys_tokens then Inl NotImplementedError
                    else
                      (case value_of identity_token of
                         Inl e \<Rightarrow> Inl e
                       | Inr v \<Rightarrow> Inr [IR_PUSH_REFERENCE (map (\<lambda>c. [c]) v)]))))"

definition generate_string_literal :: "ast \<Rightarrow> lowered" where
  "generate_string_literal node =
     (case content_of node of
        Inl e \<Rightarrow> Inl e
      | Inr c \<Rightarrow>
          (case value_of c of
             Inl e \<Rightarrow> Inl e
           | Inr v \<Rightarrow>
               (case remove_quotes v of
                  Inl e \<Rightarrow> Inl e
                | Inr string \<Rightarrow> Inr [IR_MAKE_STRING string])))"

definition generate_number_literal :: "ast \<Rightarrow> lowered" where
  "generate_number_literal node =
     (case content_of node of
        Inl e \<Rightarrow> Inl e
      | Inr c \<Rightarrow>
          (case value_of c of
             Inl e \<Rightarrow> Inl e
           | Inr v \<Rightarrow>
               (case py_int v of
                  Inl e \<Rightarrow> Inl e
                | Inr number \<Rightarrow> Inr [IR_MAKE_NUMBER number])))"

definition generate_boolean :: "ast \<Rightarrow> lowered" where
  "generate_boolean node =
     (case content_of node of
        Inl e \<Rightarrow> Inl e
      | Inr c \<Rightarrow>
          (case value_of c of
             Inl e \<Rightarrow> Inl e
           | Inr v \<Rightarrow> Inr [IR_MAKE_BOOLEAN (v = ''True'')]))"

definition generate_extern :: "ast \<Rightarrow> lowered" where
  "generate_extern node =
     (case content_of node of
        Inl e \<Rightarrow> Inl e
      | Inr c \<Rightarrow>
          (case unpack2 c of
             Inl e \<Rightarrow> Inl e
           | Inr (name_token, arg_len_token) \<Rightarrow>
               (case value_of name_token of
                  Inl e \<Rightarrow> Inl e
                | Inr nv \<Rightarrow>
                    (case remove_quotes nv of
                       Inl e \<Rightarrow> Inl e
                     | Inr name \<Rightarrow>
                         (case value_of arg_len_token of
                            Inl e \<Rightarrow> Inl e
                          | Inr av \<Rightarrow>
                              (case py_int av of
                                 Inl e \<Rightarrow> Inl e
                               | Inr arg_len \<Rightarrow> Inr [IR_EXTERN name arg_len]))))))"

text \<open>The loop of \<open>_generate_program\<close>: the statements' code in order.\<close>

fun program_loop :: "ir_generator \<Rightarrow> ast list \<Rightarrow> lowered" where
  "program_loop self [] = Inr []"
| "program_loop self (node # nodes) =
     (case self G_statement node of
        Inl e \<Rightarrow> Inl e
      | Inr statement_ir \<Rightarrow>
          (case program_loop self nodes of
             Inl e \<Rightarrow> Inl e
           | Inr ir \<Rightarrow> Inr (statement_ir @ ir)))"

definition generate_program :: "ir_generator \<Rightarrow> ast \<Rightarrow> lowered" where
  "generate_program self root =
     (case iterate root of
        Inl e \<Rightarrow> Inl e
      | Inr nodes \<Rightarrow> program_loop self nodes)"

definition generate_statement :: "ir_generator \<Rightarrow> ast \<Rightarrow> lowered" where
  "generate_statement self node =
     (case content_of node of
        Inl e \<Rightarrow> Inl e
      | Inr statement \<Rightarrow>
          if is_node NODE_ASSIGNMENT statement then self G_assignment statement
          else if is_node NODE_FUNCTION_CALL statement then self G_function_call statement
          else self G_expression statement)"

definition generate_assignment :: "ir_generator \<Rightarrow> ast \<Rightarrow> lowered" where
  "generate_assignment self node =
     (case content_of node of
        Inl e \<Rightarrow> Inl e
      | Inr c \<Rightarrow>
          (case unpack2 c of
             Inl e \<Rightarrow> Inl e
           | Inr (identity_node, expression_node) \<Rightarrow>
               (case unpack2 identity_node of
                  Inl e \<Rightarrow> Inl e
                | Inr (identity_token, keys_tokens) \<Rightarrow>
                    (case self G_expression expression_node of
                       Inl e \<Rightarrow> Inl e
                     | Inr ir_expression \<Rightarrow>
                         if truthy keys_tokens then Inl NotImplementedError
                         else
                           (case value_of identity_token of
                              Inl e \<Rightarrow> Inl e
                            | Inr v \<Rightarrow> Inr (ir_expression @ [IR_SET_NAME v]))))))"

definition generate_expression :: "ir_generator \<Rightarrow> ast \<Rightarrow> lowered" where
  "generate_expression self node =
     (if is_node NODE_IDENTITY node then generate_identity node
      else if is_node NODE_STRING_LITERAL node then generate_string_literal node
      else if is_node NODE_NUMBER_LITERAL node then generate_number_literal node
      else if is_node NODE_BOOLEAN node then generate_boolean node
      else if is_node NODE_FUNCTION node then self G_function node
      else if is_node NODE_FUNCTION_CALL node then self G_function_call node
      else if is_node NODE_EXTERN node then generate_extern node
      else Inl NotImplementedError)"

text \<open>\<open>assert all(arg.content == NODE_IDENTITY for arg in args_node)\<close>, left to right.\<close>

fun assert_identities :: "ast list \<Rightarrow> error + unit" where
  "assert_identities [] = Inr ()"
| "assert_identities (arg # args) =
     (case content_of arg of
        Inl e \<Rightarrow> Inl e
      | Inr c \<Rightarrow> if is_node NODE_IDENTITY c then assert_identities args else Inl AssertionError)"

text \<open>\<open>[name.value for name, _ in x]\<close>.\<close>

fun pair_names :: "ast list \<Rightarrow> error + string list" where
  "pair_names [] = Inr []"
| "pair_names (p # ps) =
     (case unpack2 p of
        Inl e \<Rightarrow> Inl e
      | Inr (name, other) \<Rightarrow>
          (case value_of name of
             Inl e \<Rightarrow> Inl e
           | Inr v \<Rightarrow>
               (case pair_names ps of
                  Inl e \<Rightarrow> Inl e
                | Inr vs \<Rightarrow> Inr (v # vs))))"

text \<open>\<open>[name.value for arg in args_node for name, _ in arg.content.content]\<close>.\<close>

fun arg_names :: "ast list \<Rightarrow> error + string list" where
  "arg_names [] = Inr []"
| "arg_names (arg # args) =
     (case content_of arg of
        Inl e \<Rightarrow> Inl e
      | Inr c \<Rightarrow>
          (case content_of c of
             Inl e \<Rightarrow> Inl e
           | Inr cc \<Rightarrow>
               (case iterate cc of
                  Inl e \<Rightarrow> Inl e
                | Inr pairs \<Rightarrow>
                    (case pair_names pairs of
                       Inl e \<Rightarrow> Inl e
                     | Inr vs \<Rightarrow>
                         (case arg_names args of
                            Inl e \<Rightarrow> Inl e
                          | Inr ws \<Rightarrow> Inr (vs @ ws))))))"

definition generate_function :: "ir_generator \<Rightarrow> ast \<Rightarrow> lowered" where
  "generate_function self node =
     (case content_of node of
        Inl e \<Rightarrow> Inl e
      | Inr c \<Rightarrow>
          (case unpack2 c of
             Inl e \<Rightarrow> Inl e
           | Inr (args_node, block_node) \<Rightarrow>
               (case iterate args_node of
                  Inl e \<Rightarrow> Inl e
                | Inr args_list \<Rightarrow>
                    (case assert_identities args_list of
                       Inl e \<Rightarrow> Inl e
                     | Inr u \<Rightarrow>
                         (case arg_names args_list of
                            Inl e \<Rightarrow> Inl e
                          | Inr args \<Rightarrow>
                              (case content_of block_node of
                                 Inl e \<Rightarrow> Inl e
                               | Inr bc \<Rightarrow>
                                   (case self G_program bc of
                                      Inl e \<Rightarrow> Inl e
                                    | Inr block \<Rightarrow> Inr [IR_MAKE_FUNCTION args block])))))))"

text \<open>\<open>[ir for a in args_node for ir in self._generate_expression(a.content)]\<close>.\<close>

fun args_loop :: "ir_generator \<Rightarrow> ast list \<Rightarrow> lowered" where
  "args_loop self [] = Inr []"
| "args_loop self (a # as) =
     (case content_of a of
        Inl e \<Rightarrow> Inl e
      | Inr c \<Rightarrow>
          (case self G_expression c of
             Inl e \<Rightarrow> Inl e
           | Inr ir \<Rightarrow>
               (case args_loop self as of
                  Inl e \<Rightarrow> Inl e
                | Inr irs \<Rightarrow> Inr (ir @ irs))))"

definition generate_function_call :: "ir_generator \<Rightarrow> ast \<Rightarrow> lowered" where
  "generate_function_call self node =
     (case content_of node of
        Inl e \<Rightarrow> Inl e
      | Inr c \<Rightarrow>
          (case unpack2 c of
             Inl e \<Rightarrow> Inl e
           | Inr (identifier_node, args_node) \<Rightarrow>
               (case index0 identifier_node of
                  Inl e \<Rightarrow> Inl e
                | Inr first \<Rightarrow>
                    (case value_of first of
                       Inl e \<Rightarrow> Inl e
                     | Inr name \<Rightarrow>
                         (case iterate args_node of
                            Inl e \<Rightarrow> Inl e
                          | Inr args_list \<Rightarrow>
                              (case args_loop self args_list of
                                 Inl e \<Rightarrow> Inl e
                               | Inr args \<Rightarrow> Inr [IR_CALL_FUNCTION name args]))))))"

primrec IRGenerator :: "nat \<Rightarrow> ir_generator" where
  "IRGenerator 0 = (\<lambda>s node. Inl OutOfFuel)"
| "IRGenerator (Suc n) =
     (\<lambda>s. case s of
         G_program \<Rightarrow> generate_program (IRGenerator n)
       | G_statement \<Rightarrow> generate_statement (IRGenerator n)
       | G_assignment \<Rightarrow> generate_assignment (IRGenerator n)
       | G_expression \<Rightarrow> generate_expression (IRGenerator n)
       | G_function \<Rightarrow> generate_function (IRGenerator n)
       | G_function_call \<Rightarrow> generate_function_call (IRGenerator n))"

text \<open>The property \<open>ir\<close> of an IRGenerator made from a tree.\<close>

definition ir_of :: "nat \<Rightarrow> ast \<Rightarrow> lowered" where
  "ir_of n ast = IRGenerator n G_program ast"

section \<open>Token lists of the scenarios\<close>

text \<open>The tokens that the lexer yields for a one-line source, all on line 1.\<close>

text \<open>The source \<open>x = 5;\<close>.\<close>

definition source_assignment :: "token list" where
  "source_assignment = [Token TOKEN_IDENTIFIER ''x'' 1, Token TOKEN_ASSIGN ''='' 1,
     Token TOKEN_NUMBER ''5'' 1, Token TOKEN_SEMICOLON '';'' 1]"

text \<open>The source \<open>extern("puts", 1);\<close>.\<close>

definition source_extern_statement :: "token list" where
  "source_extern_statement = [Token TOKEN_KEYWORD ''extern'' 1, Token TOKEN_LBRACKET ''('' 1,
     Token TOKEN_STRING ''\"puts\"'' 1, Token TOKEN_COMMA '','' 1,
     Token TOKEN_NUMBER ''1'' 1, Token TOKEN_RBRACKET '')'' 1, Token TOKEN_SEMICOLON '';'' 1]"

text \<open>The source \<open>fn(x){ return x;\<close>, a block that is not closed.\<close>

definition source_unclosed_block :: "token list" where
  "source_unclosed_block = [Token TOKEN_KEYWORD ''fn'' 1, Token TOKEN_LBRACKET ''('' 1,
     Token TOKEN_IDENTIFIER ''x'' 1, Token TOKEN_RBRACKET '')'' 1,
     Token TOKEN_LCURLYBRACKET ''{'' 1, Token TOKEN_KEYWORD ''return'' 1,
     Token TOKEN_IDENTIFIER ''x'' 1, Token TOKEN_SEMICOLON '';'' 1]"

text \<open>The source \<open>1; }\<close>, a complete statement and a brace after it.\<close>

definition source_trailing_brace :: "token list" where
  "source_trailing_brace = [Token TOKEN_NUMBER ''1'' 1, Token TOKEN_SEMICOLON '';'' 1,
     Token TOKEN_RCURLYBRACKET ''}'' 1]"

text \<open>The source \<open>x = extern("puts"\<close>, cut off where the comma is due.\<close>

definition source_extern_cut_off :: "token list" where
  "source_extern_cut_off = [Token TOKEN_IDENTIFIER ''x'' 1, Token TOKEN_ASSIGN ''='' 1,
     Token TOKEN_KEYWORD ''extern'' 1, Token TOKEN_LBRACKET ''('' 1,
     Token TOKEN_STRING ''\"puts\"'' 1]"

text \<open>The source \<open>True;\<close>.\<close>

definition source_boolean :: "token list" where
  "source_boolean = [Token TOKEN_KEYWORD ''True'' 1, Token TOKEN_SEMICOLON '';'' 1]"

text \<open>The source \<open>x = extern("puts", 1);\<close>.\<close>

definition source_extern_assignment :: "token list" where
  "source_extern_assignment = [Token TOKEN_IDENTIFIER ''x'' 1, Token TOKEN_ASSIGN ''='' 1,
     Token TOKEN_KEYWORD ''extern'' 1, Token TOKEN_LBRACKET ''('' 1,
     Token TOKEN_STRING ''\"puts\"'' 1, Token TOKEN_COMMA '','' 1,
     Token TOKEN_NUMBER ''1'' 1, Token TOKEN_RBRACKET '')'' 1, Token TOKEN_SEMICOLON '';'' 1]"

text \<open>The source \<open>x = 5; p = extern("puts", 1); p(x, "hi");\<close>.\<close>

definition source_call :: "token list" where
  "source_call = [Token TOKEN_IDENTIFIER ''x'' 1, Token TOKEN_ASSIGN ''='' 1,
     Token TOKEN_NUMBER ''5'' 1, Token TOKEN_SEMICOLON '';'' 1,
     Token TOKEN_IDENTIFIER ''p'' 1, Token TOKEN_ASSIGN ''='' 1,
     Token TOKEN_KEYWORD ''extern'' 1, Token TOKEN_LBRACKET ''('' 1,
     Token TOKEN_STRING ''\"puts\"'' 1, Token TOKEN_COMMA '','' 1,
     Token TOKEN_NUMBER ''1'' 1, Token TOKEN_RBRACKET '')'' 1, Token TOKEN_SEMICOLON '';'' 1,
     Token TOKEN_IDENTIFIER ''p'' 1, Token TOKEN_LBRACKET ''('' 1,
     Token TOKEN_IDENTIFIER ''x'' 1, Token TOKEN_COMMA '','' 1,
     Token TOKEN_STRING ''\"hi\"'' 1, Token TOKEN_RBRACKET '')'' 1, Token TOKEN_SEMICOLON '';'' 1]"

section \<open>The programs that the pipeline compiles\<close>

text \<open>
  The text of a STRING token that \<open>_remove_quotes\<close> accepts, and the text of a NUMBER
  token that \<open>int()\<close> accepts. The lexer's STRING texts are of the first kind; its NUMBER
  texts, runs of digits, are of the second kind up to 4300 digits.
\<close>

definition quoted :: "string \<Rightarrow> bool" where
  "quoted s = (s \<noteq> [] \<and> hd s \<in> {CHR 0x27, CHR 0x22} \<and> last s \<in> {CHR 0x27, CHR 0x22})"

definition number_text :: "string \<Rightarrow> bool" where
  "number_text s = (case py_int s of Inl e \<Rightarrow> False | Inr v \<Rightarrow> True)"

definition extern_count :: "string \<Rightarrow> bool" where
  "extern_count s = (case py_int s of Inl e \<Rightarrow> False | Inr v \<Rightarrow> v \<le> 4)"

text \<open>
  The expressions without parts. \<open>B\<close> lists the names that are bound when the expression
  is reached; the result lists the names bound after it, and is \<open>None\<close> for an expression
  outside the set. A number literal; a string literal, whose code binds the name malloc;
  an extern declaration of at most four parameters; a reference, without keys, to a bound
  name of one character.
\<close>

fun supported_leaf :: "string list \<Rightarrow> ast \<Rightarrow> string list option" where
  "supported_leaf B (Node k (Tok t)) =
     (if k = NODE_NUMBER_LITERAL \<and> number_text (tok_value t) then Some B
      else if k = NODE_STRING_LITERAL \<and> quoted (tok_value t) then Some (''malloc'' # B)
      else None)"
| "supported_leaf B (Node k (Lst [Tok s, Tok n])) =
     (if k = NODE_EXTERN \<and> quoted (tok_value s) \<and> extern_count (tok_value n) then Some B
      else None)"
| "supported_leaf B (Node k (Lst [Lst [Tok t, Lst []]])) =
     (if k = NODE_IDENTITY \<and> length (tok_value t) = 1 \<and> tok_value t \<in> set B then Some B
      else None)"
| "supported_leaf B e = None"

text \<open>
  An expression of the set is one of these, or a call of a name that is bound once the
  arguments are evaluated, with arguments of the set; the keys of the called name are
  not looked at by the lowering.
\<close>

fun supported_expression :: "string list \<Rightarrow> ast \<Rightarrow> string list option"
  and supported_args :: "string list \<Rightarrow> ast list \<Rightarrow> string list option"
where
  "supported_expression B (Node k c) =
     (if k = NODE_FUNCTION_CALL then
        (case c of
           Lst [Lst (Tok t # keys), Lst args] \<Rightarrow>
             (case supported_args B args of
                None \<Rightarrow> None
              | Some B1 \<Rightarrow> if tok_value t \<in> set B1 then Some B1 else None)
         | _ \<Rightarrow> None)
      else supported_leaf B (Node k c))"
| "supported_expression B (Tok t) = None"
| "supported_expression B (Lst l) = None"
| "supported_args B [] = Some B"
| "supported_args B (a # as) =
     (case a of
        Node k e \<Rightarrow>
          (case supported_expression B e of
             None \<Rightarrow> None
           | Some B1 \<Rightarrow> supported_args B1 as)
      | _ \<Rightarrow> None)"

text \<open>
  A statement of the set holds such an expression, or the assignment of such an
  expression to a name without keys, which binds the name.
\<close>

fun supported_assignment :: "string list \<Rightarrow> ast \<Rightarrow> string list option" where
  "supported_assignment B (Lst [Lst [Tok t, Lst []], e]) =
     (case supported_expression B e of None \<Rightarrow> None | Some B1 \<Rightarrow> Some (tok_value t # B1))"
| "supported_assignment B c = None"

fun supported_statement :: "string list \<Rightarrow> ast \<Rightarrow> string list option" where
  "supported_statement B (Node k (Node k2 c)) =
     (if k2 = NODE_ASSIGNMENT then supported_assignment B c
      else supported_expression B (Node k2 c))"
| "supported_statement B s = None"

fun supported_statements :: "string list \<Rightarrow> ast list \<Rightarrow> string list option" where
  "supported_statements B [] = Some B"
| "supported_statements B (s # ss) =
     (case supported_statement B s of
        None \<Rightarrow> None
      | Some B1 \<Rightarrow> supported_statements B1 ss)"

text \<open>A program of the set: its statements are of the set, with no name bound at first.\<close>

definition supported_program :: "ast \<Rightarrow> bool" where
  "supported_program a =
     (case a of
        Lst stmts \<Rightarrow> (case supported_statements [] stmts of None \<Rightarrow> False | Some B \<Rightarrow> True)
      | _ \<Rightarrow> False)"

text \<open>
  A recursion budget that is enough to lower a tree: two more than the number of its
  constructors.
\<close>

definition enough :: "ast \<Rightarrow> nat" where
  "enough a = size a + 2"

text \<open>
  The code these programs lower to. The state is whether the stack offset has moved
  below 0, and the names that are bound; SET_NAME wants the offset moved, so that no name
  is bound at offset 0.
\<close>

fun compilable_instruction :: "bool \<times> string list \<Rightarrow> ir \<Rightarrow> (bool \<times> string list) option"
  and compilable :: "bool \<times> string list \<Rightarrow> ir list \<Rightarrow> (bool \<times> string list) option"
where
  "compilable_instruction (m, B) (IR_MAKE_NUMBER v) = Some (True, B)"
| "compilable_instruction (m, B) (IR_MAKE_STRING v) = Some (True, ''malloc'' # B)"
| "compilable_instruction (m, B) (IR_EXTERN name k) = (if k \<le> 4 then Some (True, B) else None)"
| "compilable_instruction (m, B) (IR_SET_NAME name) = (if m then Some (True, name # B) else None)"
| "compilable_instruction (m, B) (IR_PUSH_REFERENCE names) =
     (case names of
        [name] \<Rightarrow> if name \<in> set B then Some (True, B) else None
      | _ \<Rightarrow> None)"
| "compilable_instruction (m, B) (IR_CALL_FUNCTION name args) =
     (case compilable (m, B) args of
        None \<Rightarrow> None
      | Some (m1, B1) \<Rightarrow> if name \<in> set B1 then Some (True, B1) else None)"
| "compilable_instruction (m, B) (IR_MAKE_BOOLEAN b) = None"
| "compilable_instruction (m, B) (IR_MAKE_FUNCTION params body) = None"
| "compilable_instruction (m, B) IR_NOP = Some (m, B)"
| "compilable S [] = Some S"
| "compilable S (i # is) =
     (case compilable_instruction S i of
        None \<Rightarrow> None
      | Some S1 \<Rightarrow> compilable S1 is)"

text \<open>
  What the methods behind this code need of the generator: the current context is named
  and its function has a body to append to; the stack offset is not positive, and is
  negative once a symbol is declared or a name is bound; every bound offset is negative.
\<close>

definition ready :: "generator \<Rightarrow> bool" where
  "ready g =
     ((case ctx_name (g_context g) of
         None \<Rightarrow> False
       | Some nm \<Rightarrow> map_of (g_functions g) nm \<noteq> None)
      \<and> ctx_position (g_context g) \<le> 0
      \<and> (g_extern g \<noteq> [] \<longrightarrow> ctx_position (g_context g) < 0)
      \<and> (\<forall>n p. map_of (ctx_variables (g_context g)) n = Some p \<longrightarrow>
             p < 0 \<and> ctx_position (g_context g) < 0))"

text \<open>The generator is in a state that the abstract state describes.\<close>

definition covers :: "bool \<times> string list \<Rightarrow> generator \<Rightarrow> bool" where
  "covers S g =
     (ready g
      \<and> (fst S \<longrightarrow> ctx_position (g_context g) < 0)
      \<and> (\<forall>n \<in> set (snd S). map_of (ctx_variables (g_context g)) n \<noteq> None))"

text \<open>
  A method that returns from every such state, leaves such a state, rebinds no variable
  and does not raise the stack offset; and one that also leaves the offset negative.
\<close>

definition keeps :: "effect \<Rightarrow> bool" where
  "keeps f =
     (\<forall>g. ready g \<longrightarrow>
        (\<exists>g'. f g = (Inr (), g') \<and> ready g'
           \<and> ctx_variables (g_context g') = ctx_variables (g_context g)
           \<and> ctx_position (g_context g') \<le> ctx_position (g_context g)))"

definition pushes :: "effect \<Rightarrow> bool" where
  "pushes f =
     (\<forall>g. ready g \<longrightarrow>
        (\<exists>g'. f g = (Inr (), g') \<and> ready g'
           \<and> ctx_variables (g_context g') = ctx_variables (g_context g)
           \<and> ctx_position (g_context g') < 0))"

section \<open>Decimal text and labels\<close>

lemma digit_val_digit: "d < 10 \<Longrightarrow> digit_val (digit d) = d"
  by (auto simp: digit_def digit_val_def less_Suc_eq numeral_eq_Suc)

lemma digit_in: "d < 10 \<Longrightarrow> digit d \<in> set ''0123456789''"
  unfolding digit_def by (rule nth_mem) simp

lemma val_snoc: "val (s @ [c]) = 10 * val s + digit_val c"
  by (simp add: val_def)

lemma val_str_nat: "val (str_nat n) = n"
proof (induction n rule: str_nat.induct)
  case (1 n)
  show ?case
  proof (cases "n < 10")
    case True
    then show ?thesis by (simp add: str_nat.simps [of n] val_def digit_val_digit)
  next
    case False
    with 1 show ?thesis
      by (simp add: str_nat.simps [of n] val_snoc digit_val_digit)
  qed
qed

lemma val_zeros: "val (replicate k CHR ''0'' @ s) = val s"
  by (induction k) (simp_all add: val_def digit_val_def)

lemma str_nat_digits: "set (str_nat n) \<subseteq> set ''0123456789''"
proof (induction n rule: str_nat.induct)
  case (1 n)
  show ?case
  proof (cases "n < 10")
    case True
    then show ?thesis using digit_in [of n] by (simp add: str_nat.simps [of n])
  next
    case False
    with 1 show ?thesis
      using digit_in [of "n mod 10"] by (simp add: str_nat.simps [of n])
  qed
qed

lemma str_nat_not_Nil: "str_nat n \<noteq> []"
  by (subst str_nat.simps) simp

lemma length_str_nat: "n < 10 ^ k \<Longrightarrow> 0 < k \<Longrightarrow> length (str_nat n) \<le> k"
proof (induction n arbitrary: k rule: str_nat.induct)
  case (1 n)
  show ?case
  proof (cases "n < 10")
    case True
    with 1 show ?thesis by (simp add: str_nat.simps [of n])
  next
    case False
    then obtain j where k: "k = Suc j" using 1(3) by (cases k) auto
    with False 1(2) have "0 < j" by (cases j) auto
    moreover from 1(2) k have "n div 10 < 10 ^ j"
      by (simp add: less_mult_imp_div_less mult.commute)
    ultimately have "length (str_nat (n div 10)) \<le> j" using 1(1) False by simp
    with False k show ?thesis by (simp add: str_nat.simps [of n])
  qed
qed

lemma zfill_digits: "set s \<subseteq> set ''0123456789'' \<Longrightarrow> set (zfill w s) \<subseteq> set ''0123456789''"
  by (auto simp: zfill_def)

lemma val_zfill: "val (zfill w s) = val s"
  by (simp add: zfill_def val_zeros)

lemma zfill_not_Nil: "s \<noteq> [] \<Longrightarrow> zfill w s \<noteq> []"
  by (simp add: zfill_def)

lemma unformat_format_06d: "unformat (format_06d i) = i"
proof (cases "i < 0")
  case True
  then show ?thesis by (simp add: unformat_def format_06d_def val_zfill val_str_nat)
next
  case False
  define s where "s = zfill 6 (str_nat (nat i))"
  have "s \<noteq> []" unfolding s_def by (rule zfill_not_Nil) (rule str_nat_not_Nil)
  then obtain c cs where s: "s = c # cs" by (cases s) auto
  have "set s \<subseteq> set ''0123456789''" unfolding s_def by (rule zfill_digits) (rule str_nat_digits)
  with s have "c \<noteq> CHR ''-''" by auto
  with s have "unformat s = int (val s)" by (simp add: unformat_def)
  also have "\<dots> = i" using False by (simp add: s_def val_zfill val_str_nat)
  finally show ?thesis using False by (simp add: format_06d_def s_def)
qed

lemma format_06d_no_underscore: "CHR ''_'' \<notin> set (format_06d i)"
proof -
  have d: "set (zfill w (str_nat n)) \<subseteq> set ''0123456789''" for w n
    by (rule zfill_digits) (rule str_nat_digits)
  have u: "CHR ''_'' \<notin> set ''0123456789''" by simp
  have z: "CHR ''_'' \<notin> set (zfill w (str_nat n))" for w n
    using d [of w n] u by blast
  show ?thesis
  proof (cases "i < 0")
    case True
    then show ?thesis using z [of 5 "nat (- i)"] by (simp add: format_06d_def)
  next
    case False
    then show ?thesis using z [of 6 "nat i"] by (simp add: format_06d_def)
  qed
qed

lemma split_at_first:
  "x \<notin> set xs \<Longrightarrow> x \<notin> set xs' \<Longrightarrow> xs @ x # ys = xs' @ x # ys' \<Longrightarrow> xs = xs' \<and> ys = ys'"
proof (induction xs arbitrary: xs')
  case Nil
  then show ?case by (cases xs') auto
next
  case (Cons a xs)
  then show ?case by (cases xs') auto
qed

lemma label_inj:
  assumes "p @ ''_'' @ format_06d n = q @ ''_'' @ format_06d m"
  shows "p = q \<and> n = m"
proof -
  from assms have "rev (p @ ''_'' @ format_06d n) = rev (q @ ''_'' @ format_06d m)"
    by (rule arg_cong)
  then have "rev (format_06d n) @ CHR ''_'' # rev p = rev (format_06d m) @ CHR ''_'' # rev q"
    by simp
  moreover have "CHR ''_'' \<notin> set (rev (format_06d n))" "CHR ''_'' \<notin> set (rev (format_06d m))"
    using format_06d_no_underscore by simp_all
  ultimately have "rev (format_06d n) = rev (format_06d m) \<and> rev p = rev q"
    by (rule split_at_first [rotated 2])
  then have "format_06d n = format_06d m" and "p = q" by simp_all
  from this(1) have "unformat (format_06d n) = unformat (format_06d m)" by simp
  then have "n = m" by (simp only: unformat_format_06d)
  with \<open>p = q\<close> show ?thesis by simp
qed

lemma labels_get_next_label:
  "labels_get (snd (next_label p g)) q = (if q = p then labels_get g p + 1 else labels_get g q)"
  by (simp add: next_label_def labels_get_def Let_def update_conv)

lemma fst_next_label: "fst (next_label p g) = p @ ''_'' @ format_06d (labels_get g p)"
  by (simp add: next_label_def Let_def)

lemma next_labels_bound:
  "l \<in> set (fst (next_labels ps g)) \<Longrightarrow> \<exists>p n. l = p @ ''_'' @ format_06d n \<and> labels_get g p \<le> n"
proof (induction ps arbitrary: g)
  case Nil
  then show ?case by simp
next
  case (Cons q ps)
  obtain l1 g1 where nl: "next_label q g = (l1, g1)" by (cases "next_label q g")
  obtain ls g2 where nls: "next_labels ps g1 = (ls, g2)" by (cases "next_labels ps g1")
  from Cons.prems nl nls have "l = l1 \<or> l \<in> set (fst (next_labels ps g1))" by simp
  then show ?case
  proof
    assume "l = l1"
    with nl fst_next_label [of q g] show ?thesis by auto
  next
    assume "l \<in> set (fst (next_labels ps g1))"
    then obtain p n where pn: "l = p @ ''_'' @ format_06d n" "labels_get g1 p \<le> n"
      using Cons.IH by blast
    from nl labels_get_next_label [of q g p] have "labels_get g p \<le> labels_get g1 p"
      by (simp split: if_splits)
    with pn show ?thesis by force
  qed
qed

lemma next_labels_distinct: "distinct (fst (next_labels ps g))"
proof (induction ps arbitrary: g)
  case Nil
  then show ?case by simp
next
  case (Cons q ps)
  obtain l1 g1 where nl: "next_label q g = (l1, g1)" by (cases "next_label q g")
  obtain ls g2 where nls: "next_labels ps g1 = (ls, g2)" by (cases "next_labels ps g1")
  have l1: "l1 = q @ ''_'' @ format_06d (labels_get g q)" using nl fst_next_label [of q g] by simp
  have "l1 \<notin> set ls"
  proof
    assume "l1 \<in> set ls"
    with nls obtain p n where pn: "l1 = p @ ''_'' @ format_06d n" "labels_get g1 p \<le> n"
      using next_labels_bound [of l1 ps g1] by auto
    from pn(1) l1 have "q @ ''_'' @ format_06d (labels_get g q) = p @ ''_'' @ format_06d n"
      by simp
    then have qp: "q = p" and n: "labels_get g q = n"
      using label_inj by blast+
    from nl labels_get_next_label [of q g q] have "labels_get g1 q = labels_get g q + 1" by simp
    with qp n have "labels_get g1 p = n + 1" by simp
    with pn(2) show False by simp
  qed
  moreover from Cons.IH [of g1] nls have "distinct ls" by simp
  ultimately show ?case using nl nls by simp
qed

lemma labels_get_replicate:
  "labels_get (snd (next_labels (replicate k p) g)) p = labels_get g p + int k"
proof (induction k arbitrary: g)
  case 0
  then show ?case by simp
next
  case (Suc k)
  obtain l1 g1 where nl: "next_label p g = (l1, g1)" by (cases "next_label p g")
  obtain ls g2 where nls: "next_labels (replicate k p) g1 = (ls, g2)" by (cases "next_labels (replicate k p) g1")
  from Suc [of g1] nls have "labels_get g2 p = labels_get g1 p + int k" by simp
  moreover from nl labels_get_next_label [of p g p] have "labels_get g1 p = labels_get g p + 1" by simp
  ultimately show ?case using nl nls by simp
qed

lemma format_06d_length: "0 \<le> n \<Longrightarrow> n < 1000000 \<Longrightarrow> length (format_06d n) = 6"
proof -
  assume n: "0 \<le> n" "n < 1000000"
  then have "nat n < 10 ^ 6" by simp
  then have "length (str_nat (nat n)) \<le> 6" by (rule length_str_nat) simp
  with n show ?thesis by (simp add: format_06d_def zfill_def)
qed

text \<open>
  Claim C9 as stated gives every label six digits. The label that follows 999999 labels of
  the prefix f in one generator has seven.
\<close>

theorem next_label_seven_digits_counterexample: "fst (next_label ''f'' (snd (next_labels (replicate 999999 ''f'') GeneratorX86_64Linux_init))) = ''f_1000000''"
proof -
  define G where "G = snd (next_labels (replicate 999999 ''f'') GeneratorX86_64Linux_init)"
  have "labels_get GeneratorX86_64Linux_init ''f'' = 1"
    by (simp add: labels_get_def GeneratorX86_64Linux_init_def)
  moreover have "labels_get G ''f'' = labels_get GeneratorX86_64Linux_init ''f'' + int 999999"
    unfolding G_def by (rule labels_get_replicate)
  ultimately have "labels_get G ''f'' = 1000000" by simp
  moreover have "format_06d 1000000 = ''1000000''"
    by (simp add: format_06d_def zfill_def str_nat.simps digit_def)
  ultimately have "fst (next_label ''f'' G) = ''f_1000000''" by (simp add: fst_next_label)
  then show ?thesis unfolding G_def .
qed

section \<open>Evaluating the generator\<close>

lemmas gen_defs = extern_def next_label_def labels_get_def append_line_def ctx_move_def
  move_stack_pointer_def set_name_def add_variable_def make_number_def emit_call_def
  checked_position_def get_position_def copy_loop_def push_reference_def Let_def

lemma init_simps:
  "g_extern GeneratorX86_64Linux_init = []"
  "g_labels GeneratorX86_64Linux_init = []"
  "g_data GeneratorX86_64Linux_init = []"
  "g_context GeneratorX86_64Linux_init = Context (Some ''main'') [] None 0"
  "g_functions GeneratorX86_64Linux_init =
         [(''main'', [('''', ''mov'', ''rbp, rsp'')]),
          (''exit'', [('''', ''mov'', ''rax, 60''),
                      ('''', ''mov'', ''rdi, [rsp+8]''),
                      ('''', ''syscall'', '''')])]"
  by (simp_all add: GeneratorX86_64Linux_init_def Context_init_def)

lemma format_06d_evals:
  "format_06d 1 = ''000001''"
  "format_06d 2 = ''000002''"
  by (simp_all add: format_06d_def zfill_def str_nat.simps digit_def eval_nat_numeral)

lemma str_evals:
  "str 8 = ''8''" "str 24 = ''24''" "str 48 = ''48''" "str 56 = ''56''" "str 64 = ''64''" "str 72 = ''72''"
  by (simp_all add: str_def str_nat.simps digit_def)


lemma two_strings:
  "compile [IR_MAKE_STRING a, IR_MAKE_STRING b] GeneratorX86_64Linux_init =
     (Inr (),
      \<lparr> g_global = ''main'',
        g_extern = [''malloc''],
        g_functions =
          [(''main'',
            [('''', ''mov'', ''rbp, rsp''),
             ('''', ''mov'', ''rax, f_000001''),
             ('''', ''push'', ''rax''),
             ('''', ''push'', str (int (length a) + 1)),
             ('''', ''call'', ''[rbp-8]''),
             ('''', ''add'', ''rsp, 8''),
             ('''', ''push'', ''rax''),
             ('''', ''mov'', ''rdi, s_000001''),
             ('''', ''mov'', ''rcx, '' @ str (int (length a) + 1)),
             ('''', ''xor'', ''rbx, rbx''),
             (''l_000001:'', ''mov'', ''bl, byte [rdi]''),
             ('''', ''mov'', ''byte [rax], bl''),
             ('''', ''inc'', ''rax''),
             ('''', ''inc'', ''rdi''),
             ('''', ''dec'', ''rcx''),
             ('''', ''cmp'', ''rcx, byte 0''),
             ('''', ''je'', ''e_000001''),
             ('''', ''jmp'', ''l_000001''),
             (''e_000001:'', '''', ''''),
             ('''', ''push'', str (int (length b) + 1)),
             ('''', ''call'', ''[rbp-24]''),
             ('''', ''add'', ''rsp, 8''),
             ('''', ''push'', ''rax''),
             ('''', ''mov'', ''rdi, s_000002''),
             ('''', ''mov'', ''rcx, '' @ str (int (length b) + 1)),
             ('''', ''xor'', ''rbx, rbx''),
             (''l_000002:'', ''mov'', ''bl, byte [rdi]''),
             ('''', ''mov'', ''byte [rax], bl''),
             ('''', ''inc'', ''rax''),
             ('''', ''inc'', ''rdi''),
             ('''', ''dec'', ''rcx''),
             ('''', ''cmp'', ''rcx, byte 0''),
             ('''', ''je'', ''e_000002''),
             ('''', ''jmp'', ''l_000002''),
             (''e_000002:'', '''', '''')]),
           (''exit'',
            [('''', ''mov'', ''rax, 60''),
             ('''', ''mov'', ''rdi, [rsp+8]''),
             ('''', ''syscall'', '''')]),
           (''f_000001'',
            [('''', ''push'', ''rbp''),
             ('''', ''push'', ''rdi''),
             ('''', ''mov'', ''rbp, rsp''),
             ('''', ''mov'', ''rdi, [rbp+24]''),
             ('''', ''call'', ''malloc''),
             ('''', ''mov'', ''rsp, rbp''),
             ('''', ''pop'', ''rdi''),
             ('''', ''pop'', ''rbp''),
             ('''', ''ret'', '''')])],
        g_data =
          [(''s_000001'', ('''', ''db'', ''\"'' @ a @ ''\", 0'')),
           (''s_000002'', ('''', ''db'', ''\"'' @ b @ ''\", 0''))],
        g_labels = [(''f'', 2), (''s'', 3), (''l'', 3), (''e'', 3)],
        g_context = Context (Some ''main'') [(''malloc'', - 24)] None (- 40) \<rparr>)"
  by (simp add: gen_defs format_06d_evals str_evals thunk_def
        GeneratorX86_64Linux_init_def Context_init_def)

lemma append_line_ok:
  "ctx_name (g_context g) = Some c \<Longrightarrow> map_of (g_functions g) c = Some body \<Longrightarrow>
   append_line l g = (Inr (), g\<lparr>g_functions := AList.update c (body @ [l]) (g_functions g)\<rparr>)"
  by (simp add: append_line_def)

lemma extern_fresh:
  assumes "param_len \<le> 4" and "name \<notin> set (g_extern g)"
    and "ctx_name (g_context g) = Some c" and "map_of (g_functions g) c = Some body"
  shows "extern name param_len g =
     (Inr (),
      g\<lparr>g_labels := AList.update ''f'' (labels_get g ''f'' + 1) (g_labels g),
        g_extern := g_extern g @ [name],
        g_functions :=
          AList.update (''f_'' @ format_06d (labels_get g ''f'')) (thunk name param_len)
            (AList.update c
               (body @ [('''', ''mov'', ''rax, '' @ ''f_'' @ format_06d (labels_get g ''f'')),
                        ('''', ''push'', ''rax'')])
               (g_functions g)),
        g_context := move_stack_pointer (g_context g)\<rparr>)"
  using assms
  by (simp add: extern_def next_label_def Let_def append_line_def ctx_move_def update_conv)

lemma extern_declared:
  "param_len \<le> 4 \<Longrightarrow> name \<in> set (g_extern g) \<Longrightarrow> extern name param_len g = (Inr (), g)"
  by (simp add: extern_def)

lemma extern_over_budget:
  "4 < param_len \<Longrightarrow> extern name param_len g = (Inl NotImplementedError, g)"
  by (simp add: extern_def)

lemma thunk_4:
  "thunk name 4 =
     [('''', ''push'', ''rbp''),
      ('''', ''push'', ''rdi''),
      ('''', ''push'', ''rsi''),
      ('''', ''push'', ''rdx''),
      ('''', ''push'', ''rcx''),
      ('''', ''mov'', ''rbp, rsp''),
      ('''', ''mov'', ''rdi, [rbp+48]''),
      ('''', ''mov'', ''rsi, [rbp+56]''),
      ('''', ''mov'', ''rdx, [rbp+64]''),
      ('''', ''mov'', ''rcx, [rbp+72]''),
      ('''', ''call'', name),
      ('''', ''mov'', ''rsp, rbp''),
      ('''', ''pop'', ''rcx''),
      ('''', ''pop'', ''rdx''),
      ('''', ''pop'', ''rsi''),
      ('''', ''pop'', ''rdi''),
      ('''', ''pop'', ''rbp''),
      ('''', ''ret'', '''')]"
  by (simp add: thunk_def str_evals)

text \<open>
  Claim C8. \<open>extern\<close> with a parameter count above 4 raises NotImplementedError and
  leaves the generator as it was. With parameter count 4, for a symbol not yet declared and
  a current function that has a stream, it returns normally and the thunk stored under the
  new label pushes rbp, rdi, rsi, rdx, rcx, sets the frame, and loads rdi from
  \<open>[rbp+16+8*4]\<close> = \<open>[rbp+48]\<close>, then rsi, rdx, rcx at \<open>+8\<close> each (56, 64, 72).
\<close>

theorem extern_param_budget:
  "(4 < param_len \<longrightarrow> extern name param_len g = (Inl NotImplementedError, g)) \<and>
   (name \<notin> set (g_extern g) \<and> ctx_name (g_context g) = Some c \<and>
    map_of (g_functions g) c = Some body \<longrightarrow>
      fst (extern name 4 g) = Inr () \<and>
      map_of (g_functions (snd (extern name 4 g))) (fst (next_label ''f'' g)) =
        Some
          [('''', ''push'', ''rbp''),
           ('''', ''push'', ''rdi''),
           ('''', ''push'', ''rsi''),
           ('''', ''push'', ''rdx''),
           ('''', ''push'', ''rcx''),
           ('''', ''mov'', ''rbp, rsp''),
           ('''', ''mov'', ''rdi, [rbp+'' @ str (16 + 8 * 4) @ '']''),
           ('''', ''mov'', ''rsi, [rbp+'' @ str (16 + 8 * 4 + 8) @ '']''),
           ('''', ''mov'', ''rdx, [rbp+'' @ str (16 + 8 * 4 + 16) @ '']''),
           ('''', ''mov'', ''rcx, [rbp+'' @ str (16 + 8 * 4 + 24) @ '']''),
           ('''', ''call'', name),
           ('''', ''mov'', ''rsp, rbp''),
           ('''', ''pop'', ''rcx''),
           ('''', ''pop'', ''rdx''),
           ('''', ''pop'', ''rsi''),
           ('''', ''pop'', ''rdi''),
           ('''', ''pop'', ''rbp''),
           ('''', ''ret'', '''')] \<and>
      str (16 + 8 * 4) = ''48'' \<and> str (16 + 8 * 4 + 8) = ''56'' \<and>
      str (16 + 8 * 4 + 16) = ''64'' \<and> str (16 + 8 * 4 + 24) = ''72'')"
proof (intro conjI impI)
  assume "4 < param_len"
  then show "extern name param_len g = (Inl NotImplementedError, g)"
    by (rule extern_over_budget)
next
  assume h: "name \<notin> set (g_extern g) \<and> ctx_name (g_context g) = Some c \<and>
    map_of (g_functions g) c = Some body"
  have e: "extern name 4 g =
     (Inr (),
      g\<lparr>g_labels := AList.update ''f'' (labels_get g ''f'' + 1) (g_labels g),
        g_extern := g_extern g @ [name],
        g_functions :=
          AList.update (''f_'' @ format_06d (labels_get g ''f'')) (thunk name 4)
            (AList.update c
               (body @ [('''', ''mov'', ''rax, '' @ ''f_'' @ format_06d (labels_get g ''f'')),
                        ('''', ''push'', ''rax'')])
               (g_functions g)),
        g_context := move_stack_pointer (g_context g)\<rparr>)"
    using h by (intro extern_fresh) simp_all
  show "fst (extern name 4 g) = Inr ()" by (simp add: e)
  show "map_of (g_functions (snd (extern name 4 g))) (fst (next_label ''f'' g)) =
        Some
          [('''', ''push'', ''rbp''),
           ('''', ''push'', ''rdi''),
           ('''', ''push'', ''rsi''),
           ('''', ''push'', ''rdx''),
           ('''', ''push'', ''rcx''),
           ('''', ''mov'', ''rbp, rsp''),
           ('''', ''mov'', ''rdi, [rbp+'' @ str (16 + 8 * 4) @ '']''),
           ('''', ''mov'', ''rsi, [rbp+'' @ str (16 + 8 * 4 + 8) @ '']''),
           ('''', ''mov'', ''rdx, [rbp+'' @ str (16 + 8 * 4 + 16) @ '']''),
           ('''', ''mov'', ''rcx, [rbp+'' @ str (16 + 8 * 4 + 24) @ '']''),
           ('''', ''call'', name),
           ('''', ''mov'', ''rsp, rbp''),
           ('''', ''pop'', ''rcx''),
           ('''', ''pop'', ''rdx''),
           ('''', ''pop'', ''rsi''),
           ('''', ''pop'', ''rdi''),
           ('''', ''pop'', ''rbp''),
           ('''', ''ret'', '''')]"
    by (simp add: e fst_next_label update_conv thunk_4 str_evals)
qed (simp_all add: str_evals)

theorem extern_param_budget_witness:
  "extern ''f'' 5 GeneratorX86_64Linux_init = (Inl NotImplementedError, GeneratorX86_64Linux_init) \<and>
   fst (extern ''f'' 4 GeneratorX86_64Linux_init) = Inr () \<and>
   fst (next_label ''f'' GeneratorX86_64Linux_init) = ''f_000001'' \<and>
   map_of (g_functions (snd (extern ''f'' 4 GeneratorX86_64Linux_init))) ''f_000001'' =
     Some
       [('''', ''push'', ''rbp''),
        ('''', ''push'', ''rdi''),
        ('''', ''push'', ''rsi''),
        ('''', ''push'', ''rdx''),
        ('''', ''push'', ''rcx''),
        ('''', ''mov'', ''rbp, rsp''),
        ('''', ''mov'', ''rdi, [rbp+48]''),
        ('''', ''mov'', ''rsi, [rbp+56]''),
        ('''', ''mov'', ''rdx, [rbp+64]''),
        ('''', ''mov'', ''rcx, [rbp+72]''),
        ('''', ''call'', ''f''),
        ('''', ''mov'', ''rsp, rbp''),
        ('''', ''pop'', ''rcx''),
        ('''', ''pop'', ''rdx''),
        ('''', ''pop'', ''rsi''),
        ('''', ''pop'', ''rdi''),
        ('''', ''pop'', ''rbp''),
        ('''', ''ret'', '''')]"
proof -
  have l: "fst (next_label ''f'' GeneratorX86_64Linux_init) = ''f_000001''"
    by (simp add: fst_next_label labels_get_def init_simps format_06d_evals)
  have h: "''f'' \<notin> set (g_extern GeneratorX86_64Linux_init) \<and>
    ctx_name (g_context GeneratorX86_64Linux_init) = Some ''main'' \<and>
    map_of (g_functions GeneratorX86_64Linux_init) ''main'' = Some [('''', ''mov'', ''rbp, rsp'')]"
    by (simp add: init_simps)
  show ?thesis
    using extern_param_budget [of 5 "''f''" GeneratorX86_64Linux_init "''main''" "[('''', ''mov'', ''rbp, rsp'')]"] h l
    by (simp add: str_evals)
qed

text \<open>
  Claim C5, as amended. With parameter counts of at most 4: declaring a symbol that is
  already declared returns normally and changes nothing (no thunk body, no label, no
  load-and-push at the call site, no stack slot); declaring a new symbol takes one label,
  appends the load-and-push of that label to the current function, stores the thunk body
  under the label, and a second declaration of the same symbol after it changes nothing.
\<close>

theorem extern_declared_once:
  "param_len \<le> 4 \<and> m \<le> 4 \<longrightarrow>
   (name \<in> set (g_extern g) \<longrightarrow> extern name param_len g = (Inr (), g)) \<and>
   (name \<notin> set (g_extern g) \<and> ctx_name (g_context g) = Some c \<and>
    map_of (g_functions g) c = Some body \<longrightarrow>
      extern name param_len g =
        (Inr (),
         g\<lparr>g_labels := AList.update ''f'' (labels_get g ''f'' + 1) (g_labels g),
           g_extern := g_extern g @ [name],
           g_functions :=
             AList.update (fst (next_label ''f'' g)) (thunk name param_len)
               (AList.update c
                  (body @ [('''', ''mov'', ''rax, '' @ fst (next_label ''f'' g)),
                           ('''', ''push'', ''rax'')])
                  (g_functions g)),
           g_context := move_stack_pointer (g_context g)\<rparr>) \<and>
      extern name m (snd (extern name param_len g)) = (Inr (), snd (extern name param_len g)))"
proof (intro impI conjI)
  assume b: "param_len \<le> 4 \<and> m \<le> 4"
  {
    assume "name \<in> set (g_extern g)"
    with b show "extern name param_len g = (Inr (), g)" by (simp add: extern_declared)
  }
  assume h: "name \<notin> set (g_extern g) \<and> ctx_name (g_context g) = Some c \<and>
    map_of (g_functions g) c = Some body"
  have e: "extern name param_len g =
     (Inr (),
      g\<lparr>g_labels := AList.update ''f'' (labels_get g ''f'' + 1) (g_labels g),
        g_extern := g_extern g @ [name],
        g_functions :=
          AList.update (''f_'' @ format_06d (labels_get g ''f'')) (thunk name param_len)
            (AList.update c
               (body @ [('''', ''mov'', ''rax, '' @ ''f_'' @ format_06d (labels_get g ''f'')),
                        ('''', ''push'', ''rax'')])
               (g_functions g)),
        g_context := move_stack_pointer (g_context g)\<rparr>)"
    using h b by (intro extern_fresh) simp_all
  then show "extern name param_len g =
        (Inr (),
         g\<lparr>g_labels := AList.update ''f'' (labels_get g ''f'' + 1) (g_labels g),
           g_extern := g_extern g @ [name],
           g_functions :=
             AList.update (fst (next_label ''f'' g)) (thunk name param_len)
               (AList.update c
                  (body @ [('''', ''mov'', ''rax, '' @ fst (next_label ''f'' g)),
                           ('''', ''push'', ''rax'')])
                  (g_functions g)),
           g_context := move_stack_pointer (g_context g)\<rparr>)"
    by (simp add: fst_next_label)
  have "name \<in> set (g_extern (snd (extern name param_len g)))" by (simp add: e)
  with b show "extern name m (snd (extern name param_len g)) = (Inr (), snd (extern name param_len g))"
    by (simp add: extern_declared)
qed

lemma extern_malloc_init:
  "extern ''malloc'' 1 GeneratorX86_64Linux_init =
     (Inr (),
      \<lparr> g_global = ''main'',
        g_extern = [''malloc''],
        g_functions =
          [(''main'',
            [('''', ''mov'', ''rbp, rsp''),
             ('''', ''mov'', ''rax, f_000001''),
             ('''', ''push'', ''rax'')]),
           (''exit'',
            [('''', ''mov'', ''rax, 60''),
             ('''', ''mov'', ''rdi, [rsp+8]''),
             ('''', ''syscall'', '''')]),
           (''f_000001'',
            [('''', ''push'', ''rbp''),
             ('''', ''push'', ''rdi''),
             ('''', ''mov'', ''rbp, rsp''),
             ('''', ''mov'', ''rdi, [rbp+24]''),
             ('''', ''call'', ''malloc''),
             ('''', ''mov'', ''rsp, rbp''),
             ('''', ''pop'', ''rdi''),
             ('''', ''pop'', ''rbp''),
             ('''', ''ret'', '''')])],
        g_data = [],
        g_labels = [(''f'', 2)],
        g_context = Context (Some ''main'') [] None (- 8) \<rparr>)"
  by (simp add: gen_defs format_06d_evals str_evals thunk_def
        GeneratorX86_64Linux_init_def Context_init_def)

theorem extern_declared_once_witness:
  "extern ''malloc'' 1 (snd (extern ''malloc'' 1 GeneratorX86_64Linux_init)) =
     (Inr (), snd (extern ''malloc'' 1 GeneratorX86_64Linux_init)) \<and>
   map fst (g_functions (snd (extern ''malloc'' 1 GeneratorX86_64Linux_init))) =
     [''main'', ''exit'', ''f_000001'']"
proof -
  have h: "''malloc'' \<notin> set (g_extern GeneratorX86_64Linux_init) \<and>
    ctx_name (g_context GeneratorX86_64Linux_init) = Some ''main'' \<and>
    map_of (g_functions GeneratorX86_64Linux_init) ''main'' = Some [('''', ''mov'', ''rbp, rsp'')]"
    by (simp add: init_simps)
  have b: "(1::int) \<le> 4 \<and> (1::int) \<le> 4" by simp
  have "extern ''malloc'' 1 (snd (extern ''malloc'' 1 GeneratorX86_64Linux_init)) =
     (Inr (), snd (extern ''malloc'' 1 GeneratorX86_64Linux_init))"
    using extern_declared_once [of 1 1 "''malloc''" GeneratorX86_64Linux_init "''main''" "[('''', ''mov'', ''rbp, rsp'')]"] h b
    by blast
  then show ?thesis by (simp add: extern_malloc_init)
qed

text \<open>
  Claim C5 as stated asks for a load-and-push at each declaration call site. After two
  declarations of malloc in a new generator the stream of main holds one load-and-push, not
  two: compiling the declaration twice leaves exactly what compiling it once leaves.
\<close>

theorem extern_second_call_site_counterexample:
  "compile [IR_EXTERN ''malloc'' 1, IR_EXTERN ''malloc'' 1] GeneratorX86_64Linux_init =
     compile [IR_EXTERN ''malloc'' 1] GeneratorX86_64Linux_init \<and>
   map_of (g_functions (snd (compile [IR_EXTERN ''malloc'' 1, IR_EXTERN ''malloc'' 1]
       GeneratorX86_64Linux_init))) ''main'' =
     Some [('''', ''mov'', ''rbp, rsp''),
           ('''', ''mov'', ''rax, f_000001''),
           ('''', ''push'', ''rax'')]"
  by code_simp

text \<open>
  Claim C10. When the context's stack offset is 0, \<open>set_name\<close> binds the name to 0, and
  then the lookup of that name by \<open>get_position\<close>, by \<open>push_reference\<close> (PUSH_REFERENCE)
  and by \<open>call_function\<close> (CALL_FUNCTION) raises the unknown-variable ValueError although
  the name is bound.
\<close>

theorem set_name_at_offset_zero:
  "ctx_position (g_context g) = 0 \<longrightarrow>
     set_name name g = (Inr (), g\<lparr>g_context := add_variable name (g_context g)\<rparr>) \<and>
     map_of (ctx_variables (g_context (snd (set_name name g)))) name = Some 0 \<and>
     get_position (g_context (snd (set_name name g))) name =
       Inl (ValueError (''Unknown variable: '' @ name)) \<and>
     push_reference name (snd (set_name name g)) =
       (Inl (ValueError (''Unknown variable: '' @ name)), snd (set_name name g)) \<and>
     compile [IR_SET_NAME name, IR_PUSH_REFERENCE [name]] g =
       (Inl (ValueError (''Unknown variable: '' @ name)), snd (set_name name g)) \<and>
     call_function name [] (snd (set_name name g)) =
       (Inl (ValueError (''Unknown variable: '' @ name)), snd (set_name name g)) \<and>
     compile [IR_SET_NAME name, IR_CALL_FUNCTION name []] g =
       (Inl (ValueError (''Unknown variable: '' @ name)), snd (set_name name g))"
  by (simp add: set_name_def add_variable_def get_position_def push_reference_def
        checked_position_def emit_call_def update_conv)

theorem set_name_at_offset_zero_witness:
  "ctx_position (g_context GeneratorX86_64Linux_init) = 0 \<and>
   compile [IR_SET_NAME ''x'', IR_PUSH_REFERENCE [''x'']] GeneratorX86_64Linux_init =
     (Inl (ValueError ''Unknown variable: x''),
      GeneratorX86_64Linux_init\<lparr>g_context := Context (Some ''main'') [(''x'', 0)] None 0\<rparr>)"
  using set_name_at_offset_zero [of GeneratorX86_64Linux_init "''x''"]
  by (simp add: init_simps set_name_def add_variable_def)

text \<open>
  Claim C4 on the code: \<open>get_position\<close> reads the context's own \<open>_variables\<close> only, so the
  parent makes no difference; in a child of a context that binds x at offset -8 the lookup
  of x raises the unknown-variable ValueError, and the merging property \<open>variables\<close> of the
  child raises AttributeError.
\<close>

theorem get_position_local_only:
  "get_position (Context nm vs (Some p) pos) x = get_position (Context nm vs None pos) x \<and>
   get_position (child p) x = Inl (ValueError (''Unknown variable: '' @ x)) \<and>
   get_position (Context (Some ''main'') [(''x'', - 8)] None (- 8)) ''x'' = Inr (- 8) \<and>
   get_position (child (Context (Some ''main'') [(''x'', - 8)] None (- 8))) ''x'' =
     Inl (ValueError ''Unknown variable: x'') \<and>
   variables (child (Context (Some ''main'') [(''x'', - 8)] None (- 8))) = Inl AttributeError"
  by (simp add: get_position_def child_def Context_init_def variables_def)

lemma format_06d_digits: "0 \<le> n \<Longrightarrow> set (format_06d n) \<subseteq> set ''0123456789''"
  using zfill_digits [OF str_nat_digits, of 6 "nat n"] by (simp add: format_06d_def)

lemma two_strings_labels:
  "fst (compile [IR_MAKE_STRING a, IR_MAKE_STRING b] GeneratorX86_64Linux_init) = Inr () \<and>
   map fst (g_data (snd (compile [IR_MAKE_STRING a, IR_MAKE_STRING b] GeneratorX86_64Linux_init))) =
     [''s_000001'', ''s_000002''] \<and>
   filter (\<lambda>l. l \<noteq> [])
     (map fst (the (map_of
        (g_functions (snd (compile [IR_MAKE_STRING a, IR_MAKE_STRING b] GeneratorX86_64Linux_init)))
        ''main''))) =
     [''l_000001:'', ''e_000001:'', ''l_000002:'', ''e_000002:''] \<and>
   g_labels (snd (compile [IR_MAKE_STRING a, IR_MAKE_STRING b] GeneratorX86_64Linux_init)) =
     [(''f'', 2), (''s'', 3), (''l'', 3), (''e'', 3)]"
  unfolding two_strings by simp

lemma length_str_nat_lower: "10 ^ k \<le> n \<Longrightarrow> k < length (str_nat n)"
proof (induction n arbitrary: k rule: str_nat.induct)
  case (1 n)
  show ?case
  proof (cases "n < 10")
    case True
    with 1(2) have "k = 0"
      by (cases k) (simp_all, metis le_trans not_less one_le_numeral one_le_power
          mult_le_mono1 mult.commute mult_1 nat_mult_1_right)
    then show ?thesis by (simp add: str_nat.simps [of n] True)
  next
    case False
    show ?thesis
    proof (cases k)
      case 0
      then show ?thesis by (simp add: str_nat.simps [of n] False)
    next
      case (Suc j)
      with 1(2) have "10 ^ j \<le> n div 10" by (simp add: less_eq_div_iff_mult_less_eq mult.commute)
      from 1(1) [OF False this] Suc show ?thesis
        by (simp add: str_nat.simps [of n] False)
    qed
  qed
qed

lemma format_06d_long: "1000000 \<le> n \<Longrightarrow> 7 \<le> length (format_06d n)"
proof -
  assume n: "1000000 \<le> n"
  then have "10 ^ 6 \<le> nat n" by simp
  from length_str_nat_lower [OF this] have "7 \<le> length (str_nat (nat n))" by simp
  with n show ?thesis by (simp add: format_06d_def zfill_def)
qed

text \<open>
  Claim C9, as amended. A label is the prefix, an underscore and the counter of the prefix
  in decimal, padded with zeros to at least six digits: exactly six digits while the counter
  is below 1000000, and seven or more for every counter from 1000000 on. In a new generator the counter of every prefix
  is 1; a call of \<open>_next_label\<close> raises the counter of its prefix by 1 and leaves the others;
  the labels of any run of calls, from any generator, are pairwise distinct. Compiling two
  string literals in a new generator gives the data labels s_000001 and s_000002 and the
  loop labels l_000001, e_000001, l_000002, e_000002.
\<close>

theorem next_label_unique:
  "fst (next_label p g) = p @ ''_'' @ format_06d (labels_get g p) \<and>
   (0 \<le> labels_get g p \<and> labels_get g p < 1000000 \<longrightarrow>
      length (format_06d (labels_get g p)) = 6 \<and>
      set (format_06d (labels_get g p)) \<subseteq> set ''0123456789'') \<and>
   (1000000 \<le> labels_get g p \<longrightarrow>
      7 \<le> length (format_06d (labels_get g p)) \<and>
      set (format_06d (labels_get g p)) \<subseteq> set ''0123456789'') \<and>
   labels_get GeneratorX86_64Linux_init p = 1 \<and>
   labels_get (snd (next_label p g)) q = (if q = p then labels_get g p + 1 else labels_get g q) \<and>
   distinct (fst (next_labels ps g)) \<and>
   fst (compile [IR_MAKE_STRING a, IR_MAKE_STRING b] GeneratorX86_64Linux_init) = Inr () \<and>
   map fst (g_data (snd (compile [IR_MAKE_STRING a, IR_MAKE_STRING b] GeneratorX86_64Linux_init))) =
     [''s_000001'', ''s_000002''] \<and>
   filter (\<lambda>l. l \<noteq> [])
     (map fst (the (map_of
        (g_functions (snd (compile [IR_MAKE_STRING a, IR_MAKE_STRING b] GeneratorX86_64Linux_init)))
        ''main''))) =
     [''l_000001:'', ''e_000001:'', ''l_000002:'', ''e_000002:'']"
proof -
  note t = two_strings_labels [of a b]
  have 1: "fst (next_label p g) = p @ ''_'' @ format_06d (labels_get g p)"
    by (rule fst_next_label)
  have 2: "0 \<le> labels_get g p \<and> labels_get g p < 1000000 \<longrightarrow>
      length (format_06d (labels_get g p)) = 6 \<and>
      set (format_06d (labels_get g p)) \<subseteq> set ''0123456789''"
    using format_06d_length [of "labels_get g p"] format_06d_digits [of "labels_get g p"]
    by blast
  have 6: "1000000 \<le> labels_get g p \<longrightarrow>
      7 \<le> length (format_06d (labels_get g p)) \<and>
      set (format_06d (labels_get g p)) \<subseteq> set ''0123456789''"
    using format_06d_long [of "labels_get g p"] format_06d_digits [of "labels_get g p"]
    by simp
  have 3: "labels_get GeneratorX86_64Linux_init p = 1"
    by (simp add: labels_get_def init_simps)
  have 4: "labels_get (snd (next_label p g)) q = (if q = p then labels_get g p + 1 else labels_get g q)"
    by (rule labels_get_next_label)
  have 5: "distinct (fst (next_labels ps g))"
    by (rule next_labels_distinct)
  from 1 2 3 4 5 6 t show ?thesis by blast
qed

theorem next_label_unique_witness:
  "fst (next_label ''f'' GeneratorX86_64Linux_init) = ''f_000001'' \<and>
   length (format_06d 1) = 6 \<and>
   7 \<le> length (format_06d
     (labels_get (GeneratorX86_64Linux_init\<lparr>g_labels := [(''f'', 1000000)]\<rparr>) ''f'')) \<and>
   labels_get (snd (next_label ''f'' GeneratorX86_64Linux_init)) ''f'' = 2 \<and>
   labels_get (snd (next_label ''f'' GeneratorX86_64Linux_init)) ''s'' = 1 \<and>
   distinct (fst (next_labels [''f'', ''s'', ''f''] GeneratorX86_64Linux_init))"
proof -
  have h: "(0::int) \<le> 1 \<and> (1::int) < 1000000" by simp
  have l: "labels_get GeneratorX86_64Linux_init ''f'' = 1"
    by (simp add: labels_get_def init_simps)
  have s: "labels_get GeneratorX86_64Linux_init ''s'' = 1"
    by (simp add: labels_get_def init_simps)
  have m: "labels_get (GeneratorX86_64Linux_init\<lparr>g_labels := [(''f'', 1000000)]\<rparr>) ''f''
      = 1000000"
    by (simp add: labels_get_def)
  have k: "7 \<le> length (format_06d
     (labels_get (GeneratorX86_64Linux_init\<lparr>g_labels := [(''f'', 1000000)]\<rparr>) ''f''))"
    using next_label_unique [of "''f''" "GeneratorX86_64Linux_init\<lparr>g_labels := [(''f'', 1000000)]\<rparr>"
        "''f''" "[]"]
    unfolding m by simp
  have r: "fst (next_label ''f'' GeneratorX86_64Linux_init) = ''f_000001'' \<and>
   length (format_06d 1) = 6 \<and>
   labels_get (snd (next_label ''f'' GeneratorX86_64Linux_init)) ''f'' = 2 \<and>
   labels_get (snd (next_label ''f'' GeneratorX86_64Linux_init)) ''s'' = 1 \<and>
   distinct (fst (next_labels [''f'', ''s'', ''f''] GeneratorX86_64Linux_init))"
    using next_label_unique [of "''f''" GeneratorX86_64Linux_init "''f''" "[''f'', ''s'', ''f'']"]
      next_label_unique [of "''f''" GeneratorX86_64Linux_init "''s''" "[''f'', ''s'', ''f'']"] h l s
    by (simp add: format_06d_evals)
  from r k show ?thesis by blast
qed

section \<open>Evaluating the parser and the lowering\<close>

lemma Parser_Suc:
  "Parser (Suc n) S_statements toks = parse_statements (Parser n) toks"
  "Parser (Suc n) S_statement toks = parse_statement (Parser n) toks"
  "Parser (Suc n) S_free toks = parse_free (Parser n) toks"
  "Parser (Suc n) S_for toks = parse_for (Parser n) toks"
  "Parser (Suc n) S_return_cont toks = parse_return_cont (Parser n) toks"
  "Parser (Suc n) S_assignment_or_identity_or_function_call toks = parse_assignment_or_identity_or_function_call (Parser n) toks"
  "Parser (Suc n) S_assignment_cont toks = parse_assignment_cont (Parser n) toks"
  "Parser (Suc n) S_identity toks = parse_identity (Parser n) toks"
  "Parser (Suc n) S_keys toks = parse_keys (Parser n) toks"
  "Parser (Suc n) S_key toks = parse_key (Parser n) toks"
  "Parser (Suc n) S_expression toks = parse_expression (Parser n) toks"
  "Parser (Suc n) S_identity_or_function_call toks = parse_identity_or_function_call (Parser n) toks"
  "Parser (Suc n) S_function_call_cont toks = parse_function_call_cont (Parser n) toks"
  "Parser (Suc n) S_args toks = parse_args (Parser n) toks"
  "Parser (Suc n) S_later_args toks = parse_later_args (Parser n) toks"
  "Parser (Suc n) S_arg toks = parse_arg (Parser n) toks"
  "Parser (Suc n) S_function toks = parse_function (Parser n) toks"
  "Parser (Suc n) S_block toks = parse_block (Parser n) toks"
  "Parser (Suc n) S_dictionary toks = parse_dictionary (Parser n) toks"
  "Parser (Suc n) S_key_values toks = parse_key_values (Parser n) toks"
  "Parser (Suc n) S_later_key_values toks = parse_later_key_values (Parser n) toks"
  "Parser (Suc n) S_key_value toks = parse_key_value (Parser n) toks"
  "Parser (Suc n) S_comparison_cont toks = parse_comparison_cont (Parser n) toks"
  by simp_all

lemma Parser_numeral:
  "Parser (numeral k) S_statements toks = parse_statements (Parser (pred_numeral k)) toks"
  "Parser (numeral k) S_statement toks = parse_statement (Parser (pred_numeral k)) toks"
  "Parser (numeral k) S_free toks = parse_free (Parser (pred_numeral k)) toks"
  "Parser (numeral k) S_for toks = parse_for (Parser (pred_numeral k)) toks"
  "Parser (numeral k) S_return_cont toks = parse_return_cont (Parser (pred_numeral k)) toks"
  "Parser (numeral k) S_assignment_or_identity_or_function_call toks = parse_assignment_or_identity_or_function_call (Parser (pred_numeral k)) toks"
  "Parser (numeral k) S_assignment_cont toks = parse_assignment_cont (Parser (pred_numeral k)) toks"
  "Parser (numeral k) S_identity toks = parse_identity (Parser (pred_numeral k)) toks"
  "Parser (numeral k) S_keys toks = parse_keys (Parser (pred_numeral k)) toks"
  "Parser (numeral k) S_key toks = parse_key (Parser (pred_numeral k)) toks"
  "Parser (numeral k) S_expression toks = parse_expression (Parser (pred_numeral k)) toks"
  "Parser (numeral k) S_identity_or_function_call toks = parse_identity_or_function_call (Parser (pred_numeral k)) toks"
  "Parser (numeral k) S_function_call_cont toks = parse_function_call_cont (Parser (pred_numeral k)) toks"
  "Parser (numeral k) S_args toks = parse_args (Parser (pred_numeral k)) toks"
  "Parser (numeral k) S_later_args toks = parse_later_args (Parser (pred_numeral k)) toks"
  "Parser (numeral k) S_arg toks = parse_arg (Parser (pred_numeral k)) toks"
  "Parser (numeral k) S_function toks = parse_function (Parser (pred_numeral k)) toks"
  "Parser (numeral k) S_block toks = parse_block (Parser (pred_numeral k)) toks"
  "Parser (numeral k) S_dictionary toks = parse_dictionary (Parser (pred_numeral k)) toks"
  "Parser (numeral k) S_key_values toks = parse_key_values (Parser (pred_numeral k)) toks"
  "Parser (numeral k) S_later_key_values toks = parse_later_key_values (Parser (pred_numeral k)) toks"
  "Parser (numeral k) S_key_value toks = parse_key_value (Parser (pred_numeral k)) toks"
  "Parser (numeral k) S_comparison_cont toks = parse_comparison_cont (Parser (pred_numeral k)) toks"
  by (simp_all add: numeral_eq_Suc)

lemmas parse_defs =
  parse_statements_def
  parse_statement_def
  parse_free_def
  parse_for_def
  parse_return_cont_def
  parse_assignment_or_identity_or_function_call_def
  parse_assignment_cont_def
  parse_identity_def
  parse_keys_def
  parse_key_def
  parse_expression_def
  parse_identity_or_function_call_def
  parse_function_call_cont_def
  parse_args_def
  parse_later_args_def
  parse_arg_def
  parse_function_def
  parse_block_def
  parse_dictionary_def
  parse_key_values_def
  parse_later_key_values_def
  parse_key_value_def
  parse_comparison_cont_def
  parse_extern_def parse_import_def parse_boolean_def parse_identity_cont_def
  parse_program_def parse_def expect_def with_comparison_def prepend_def raise_ParseError_def
  kw_def starts_statement_def starts_expression_def follows_identity_def
  add_tokens_def Parser_init_def reset_def line_range_def

lemmas parse_eval = Parser_Suc Parser_numeral parse_defs

lemma IRGenerator_Suc:
  "IRGenerator (Suc n) G_program x = generate_program (IRGenerator n) x"
  "IRGenerator (Suc n) G_statement x = generate_statement (IRGenerator n) x"
  "IRGenerator (Suc n) G_assignment x = generate_assignment (IRGenerator n) x"
  "IRGenerator (Suc n) G_expression x = generate_expression (IRGenerator n) x"
  "IRGenerator (Suc n) G_function x = generate_function (IRGenerator n) x"
  "IRGenerator (Suc n) G_function_call x = generate_function_call (IRGenerator n) x"
  by simp_all

lemma IRGenerator_numeral:
  "IRGenerator (numeral k) G_program x = generate_program (IRGenerator (pred_numeral k)) x"
  "IRGenerator (numeral k) G_statement x = generate_statement (IRGenerator (pred_numeral k)) x"
  "IRGenerator (numeral k) G_assignment x = generate_assignment (IRGenerator (pred_numeral k)) x"
  "IRGenerator (numeral k) G_expression x = generate_expression (IRGenerator (pred_numeral k)) x"
  "IRGenerator (numeral k) G_function x = generate_function (IRGenerator (pred_numeral k)) x"
  "IRGenerator (numeral k) G_function_call x = generate_function_call (IRGenerator (pred_numeral k)) x"
  by (simp_all add: numeral_eq_Suc)

lemmas tree_defs = is_node_def content_of_def value_of_def unpack2_def index0_def iterate_def
  truthy_def remove_quotes_def py_int_def Let_def strip_space_def int_space_def
  decimal_digit_def int_max_str_digits_def

lemmas generate_defs = generate_identity_def generate_string_literal_def
  generate_number_literal_def generate_boolean_def generate_extern_def generate_program_def
  generate_statement_def generate_assignment_def generate_expression_def
  generate_function_def generate_function_call_def ir_of_def

lemmas ir_eval = IRGenerator_Suc IRGenerator_numeral generate_defs tree_defs

section \<open>Compiling the code of the supported programs\<close>

lemma keeps_append_line: "keeps (append_line l)"
  by (auto simp: keeps_def ready_def append_line_def update_conv split: option.splits)

lemma keeps_set_data: "keeps (\<lambda>s. (Inr (), s\<lparr>g_data := d s\<rparr>))"
  by (simp add: keeps_def ready_def split: option.splits)

lemma pushes_ctx_move: "pushes ctx_move"
  unfolding pushes_def
proof (intro allI impI)
  fix g assume r: "ready g"
  let ?g = "g\<lparr>g_context := move_stack_pointer (g_context g)\<rparr>"
  from r have "ctx_position (g_context g) \<le> 0" by (simp add: ready_def)
  then have p: "ctx_position (g_context ?g) < 0" by (simp add: move_stack_pointer_def)
  have "ready ?g"
    using r p by (auto simp: ready_def move_stack_pointer_def split: option.splits)
  with p show "\<exists>g'. ctx_move g = (Inr (), g') \<and> ready g'
       \<and> ctx_variables (g_context g') = ctx_variables (g_context g)
       \<and> ctx_position (g_context g') < 0"
    by (simp add: ctx_move_def move_stack_pointer_def)
qed

lemma keeps_run_Nil: "keeps (run [])"
  by (simp add: keeps_def)

lemma keeps_run_Cons:
  assumes "keeps f" and "keeps (run fs)"
  shows "keeps (run (f # fs))"
  unfolding keeps_def
proof (intro allI impI)
  fix g assume "ready g"
  with assms(1) obtain g1 where g1: "f g = (Inr (), g1)" "ready g1"
    "ctx_variables (g_context g1) = ctx_variables (g_context g)"
    "ctx_position (g_context g1) \<le> ctx_position (g_context g)"
    unfolding keeps_def by blast
  with assms(2) obtain g2 where g2: "run fs g1 = (Inr (), g2)" "ready g2"
    "ctx_variables (g_context g2) = ctx_variables (g_context g1)"
    "ctx_position (g_context g2) \<le> ctx_position (g_context g1)"
    unfolding keeps_def by blast
  from g1 g2 show "\<exists>g'. run (f # fs) g = (Inr (), g') \<and> ready g'
       \<and> ctx_variables (g_context g') = ctx_variables (g_context g)
       \<and> ctx_position (g_context g') \<le> ctx_position (g_context g)"
    by auto
qed

lemma pushes_run_move: "pushes (run [ctx_move])"
  using pushes_ctx_move unfolding pushes_def
  by (auto split: prod.splits sum.splits)

lemma pushes_run_Cons:
  assumes "keeps f" and "pushes (run fs)"
  shows "pushes (run (f # fs))"
  unfolding pushes_def
proof (intro allI impI)
  fix g assume "ready g"
  with assms(1) obtain g1 where g1: "f g = (Inr (), g1)" "ready g1"
    "ctx_variables (g_context g1) = ctx_variables (g_context g)"
    unfolding keeps_def by blast
  with assms(2) obtain g2 where g2: "run fs g1 = (Inr (), g2)" "ready g2"
    "ctx_variables (g_context g2) = ctx_variables (g_context g1)"
    "ctx_position (g_context g2) < 0"
    unfolding pushes_def by blast
  from g1 g2 show "\<exists>g'. run (f # fs) g = (Inr (), g') \<and> ready g'
       \<and> ctx_variables (g_context g') = ctx_variables (g_context g)
       \<and> ctx_position (g_context g') < 0"
    by auto
qed

lemma pushes_make_number: "pushes (make_number v)"
  unfolding make_number_def
  by (intro pushes_run_Cons keeps_append_line pushes_run_move)

lemma ready_labels: "ready (g\<lparr>g_labels := l\<rparr>) = ready g"
  by (simp add: ready_def split: option.splits)

lemma next_label_ready:
  "ready (snd (next_label p g)) = ready g"
  "g_context (snd (next_label p g)) = g_context g"
  "g_extern (snd (next_label p g)) = g_extern g"
  by (simp_all add: next_label_def Let_def ready_labels)

lemma extern_fresh_run:
  assumes "ready g"
  shows "\<exists>g'. run
              [\<lambda>s. (Inr (), s\<lparr>g_extern := g_extern s @ [name]\<rparr>),
               append_line l1,
               append_line l2,
               \<lambda>s. (Inr (), s\<lparr>g_functions := AList.update label body (g_functions s)\<rparr>),
               ctx_move] g = (Inr (), g') \<and> ready g'
           \<and> ctx_variables (g_context g') = ctx_variables (g_context g)
           \<and> ctx_position (g_context g') < 0"
proof -
  obtain nm b where nm: "ctx_name (g_context g) = Some nm" "map_of (g_functions g) nm = Some b"
    using assms by (auto simp: ready_def split: option.splits)
  let ?g0 = "g\<lparr>g_extern := g_extern g @ [name]\<rparr>"
  define g1 where "g1 = snd (append_line l1 ?g0)"
  define g2 where "g2 = snd (append_line l2 g1)"
  define g3 where "g3 = g2\<lparr>g_functions := AList.update label body (g_functions g2)\<rparr>"
  define g4 where "g4 = g3\<lparr>g_context := move_stack_pointer (g_context g3)\<rparr>"
  have a1: "append_line l1 ?g0 = (Inr (), g1)"
    and c1: "g_context g1 = g_context g"
    and f1: "map_of (g_functions g1) nm \<noteq> None"
    using nm by (simp_all add: g1_def append_line_def update_conv)
  from f1 obtain b1 where b1: "map_of (g_functions g1) nm = Some b1" by blast
  have a2: "append_line l2 g1 = (Inr (), g2)"
    and c2: "g_context g2 = g_context g"
    and f2: "map_of (g_functions g2) nm \<noteq> None"
    using nm c1 b1 by (simp_all add: g2_def append_line_def update_conv)
  have c3: "g_context g3 = g_context g"
    and f3: "map_of (g_functions g3) nm \<noteq> None"
    using c2 f2 by (simp_all add: g3_def update_conv)
  have c4: "g_context g4 = move_stack_pointer (g_context g)"
    and f4: "map_of (g_functions g4) nm \<noteq> None"
    using c3 f3 by (simp_all add: g4_def)
  have run: "run [\<lambda>s. (Inr (), s\<lparr>g_extern := g_extern s @ [name]\<rparr>),
               append_line l1,
               append_line l2,
               \<lambda>s. (Inr (), s\<lparr>g_functions := AList.update label body (g_functions s)\<rparr>),
               ctx_move] g = (Inr (), g4)"
    by (simp add: a1 a2 ctx_move_def g3_def g4_def)
  from assms have "ctx_position (g_context g) \<le> 0" by (simp add: ready_def)
  then have p: "ctx_position (g_context g4) < 0" by (simp add: c4 move_stack_pointer_def)
  have v: "ctx_variables (g_context g4) = ctx_variables (g_context g)"
    by (simp add: c4 move_stack_pointer_def)
  have n: "ctx_name (g_context g4) = Some nm"
    using nm by (simp add: c4 move_stack_pointer_def)
  have "ready g4"
    using assms p v n f4 by (auto simp: ready_def)
  with run p v show ?thesis by blast
qed

lemma pushes_extern:
  assumes "param_len \<le> 4"
  shows "pushes (extern name param_len)"
  unfolding pushes_def
proof (intro allI impI)
  fix g assume r: "ready g"
  show "\<exists>g'. extern name param_len g = (Inr (), g') \<and> ready g'
       \<and> ctx_variables (g_context g') = ctx_variables (g_context g)
       \<and> ctx_position (g_context g') < 0"
  proof (cases "name \<in> set (g_extern g)")
    case True
    then have "g_extern g \<noteq> []" by auto
    with r have "ctx_position (g_context g) < 0" by (simp add: ready_def)
    with assms r True show ?thesis by (simp add: extern_def)
  next
    case False
    from r have r1: "ready (snd (next_label ''f'' g))" by (simp add: next_label_ready)
    from extern_fresh_run [OF r1] assms False
    show ?thesis
      by (simp add: extern_def split_beta next_label_ready)
  qed
qed

lemma pushes_copy_loop: "pushes (copy_loop v)"
proof -
  have body: "pushes (run
           [\<lambda>s. (Inr (), s\<lparr>g_data := AList.update string_label d (g_data s)\<rparr>),
            append_line l1, append_line l2, append_line l3, append_line l4, append_line l5,
            append_line l6, append_line l7, append_line l8, append_line l9, append_line l10,
            append_line l11, append_line l12,
            ctx_move])" for string_label d l1 l2 l3 l4 l5 l6 l7 l8 l9 l10 l11 l12
    by (intro pushes_run_Cons keeps_append_line keeps_set_data pushes_run_move)
  show ?thesis
    unfolding pushes_def
  proof (intro allI impI)
    fix g assume r: "ready g"
    let ?g1 = "snd (next_label ''s'' g)"
    let ?g2 = "snd (next_label ''l'' ?g1)"
    let ?g3 = "snd (next_label ''e'' ?g2)"
    have g3: "ready ?g3" "g_context ?g3 = g_context g"
      using r by (simp_all add: next_label_ready)
    from body [unfolded pushes_def, rule_format, OF g3(1)] g3(2)
    show "\<exists>g'. copy_loop v g = (Inr (), g') \<and> ready g'
           \<and> ctx_variables (g_context g') = ctx_variables (g_context g)
           \<and> ctx_position (g_context g') < 0"
      unfolding copy_loop_def Let_def split_beta by simp
  qed
qed

lemma bound_position:
  assumes "ready g" and "map_of (ctx_variables (g_context g)) name \<noteq> None"
  shows "\<exists>p. checked_position name g = Inr p" and "ctx_position (g_context g) < 0"
proof -
  from assms(2) obtain p where p: "map_of (ctx_variables (g_context g)) name = Some p" by blast
  with assms(1) have n: "p < 0" "ctx_position (g_context g) < 0" by (auto simp: ready_def)
  from p n(1) have "checked_position name g = Inr p"
    by (simp add: checked_position_def get_position_def)
  then show "\<exists>p. checked_position name g = Inr p" by blast
  from n(2) show "ctx_position (g_context g) < 0" .
qed

lemma emit_call_ok:
  assumes "ready g" and "map_of (ctx_variables (g_context g)) name \<noteq> None"
  shows "\<exists>g'. emit_call name arg_len g = (Inr (), g') \<and> ready g'
       \<and> ctx_variables (g_context g') = ctx_variables (g_context g)
       \<and> ctx_position (g_context g') < 0"
proof -
  have k: "keeps (run [append_line l1, append_line l2, append_line l3])" for l1 l2 l3
    by (intro keeps_run_Cons keeps_append_line keeps_run_Nil)
  from bound_position [OF assms] obtain p where p: "checked_position name g = Inr p"
    and n: "ctx_position (g_context g) < 0" by blast
  from k [unfolded keeps_def, rule_format, OF assms(1)] p n show ?thesis
    by (simp add: emit_call_def) force
qed

lemma push_reference_ok:
  assumes "ready g" and "map_of (ctx_variables (g_context g)) name \<noteq> None"
  shows "\<exists>g'. push_reference name g = (Inr (), g') \<and> ready g'
       \<and> ctx_variables (g_context g') = ctx_variables (g_context g)
       \<and> ctx_position (g_context g') < 0"
proof -
  have k: "pushes (run [append_line l1, append_line l2, ctx_move])" for l1 l2
    by (intro pushes_run_Cons keeps_append_line pushes_run_move)
  from bound_position [OF assms] obtain p where p: "checked_position name g = Inr p" by blast
  from k [unfolded pushes_def, rule_format, OF assms(1)] p show ?thesis
    by (simp add: push_reference_def)
qed

lemma set_name_ok:
  assumes "ready g" and "ctx_position (g_context g) < 0"
  shows "\<exists>g'. set_name name g = (Inr (), g') \<and> ready g'
       \<and> ctx_position (g_context g') < 0
       \<and> map_of (ctx_variables (g_context g')) name \<noteq> None
       \<and> (\<forall>n. map_of (ctx_variables (g_context g)) n \<noteq> None
              \<longrightarrow> map_of (ctx_variables (g_context g')) n \<noteq> None)"
  using assms
  by (auto simp: set_name_def ready_def add_variable_def update_conv split: option.splits)

lemma make_string_ok:
  assumes "ready g"
  shows "\<exists>g'. make_string v g = (Inr (), g') \<and> ready g'
       \<and> ctx_position (g_context g') < 0
       \<and> map_of (ctx_variables (g_context g')) ''malloc'' \<noteq> None
       \<and> (\<forall>n. map_of (ctx_variables (g_context g)) n \<noteq> None
              \<longrightarrow> map_of (ctx_variables (g_context g')) n \<noteq> None)"
proof -
  from pushes_extern [of 1 "''malloc''", unfolded pushes_def, rule_format, OF _ assms]
  obtain g1 where g1: "extern ''malloc'' 1 g = (Inr (), g1)" "ready g1"
    "ctx_variables (g_context g1) = ctx_variables (g_context g)"
    "ctx_position (g_context g1) < 0"
    by auto
  from set_name_ok [OF g1(2,4), of "''malloc''"]
  obtain g2 where g2: "set_name ''malloc'' g1 = (Inr (), g2)" "ready g2"
    "map_of (ctx_variables (g_context g2)) ''malloc'' \<noteq> None"
    "\<forall>n. map_of (ctx_variables (g_context g1)) n \<noteq> None
              \<longrightarrow> map_of (ctx_variables (g_context g2)) n \<noteq> None"
    by blast
  from pushes_make_number [unfolded pushes_def, rule_format, OF g2(2), of "int (length v) + 1"]
  obtain g3 where g3: "make_number (int (length v) + 1) g2 = (Inr (), g3)" "ready g3"
    "ctx_variables (g_context g3) = ctx_variables (g_context g2)"
    by blast
  have run: "run [extern ''malloc'' 1, set_name ''malloc'', make_number (int (length v) + 1)] g
    = (Inr (), g3)"
    by (simp add: g1(1) g2(1) g3(1))
  from g2(3) g3(3) have m3: "map_of (ctx_variables (g_context g3)) ''malloc'' \<noteq> None" by simp
  from emit_call_ok [OF g3(2) m3, of 1]
  obtain g4 where g4: "emit_call ''malloc'' 1 g3 = (Inr (), g4)" "ready g4"
    "ctx_variables (g_context g4) = ctx_variables (g_context g3)"
    by blast
  have call: "call_function ''malloc'' [IR_NOP] g3 = (Inr (), g4)"
    by (simp add: g4(1))
  from pushes_copy_loop [unfolded pushes_def, rule_format, OF g4(2), of v]
  obtain g5 where g5: "copy_loop v g4 = (Inr (), g5)" "ready g5"
    "ctx_variables (g_context g5) = ctx_variables (g_context g4)"
    "ctx_position (g_context g5) < 0"
    by blast
  have "make_string v g = (Inr (), g5)"
    by (simp add: run call g5(1) del: run.simps call_function.simps)
  moreover have "ctx_variables (g_context g5) = ctx_variables (g_context g2)"
    using g5(3) g4(3) g3(3) by simp
  ultimately show ?thesis
    using g5(2,4) g2(3,4) g1(3) by auto
qed

lemma compile_compilable:
  shows "compilable_instruction S i = Some S' \<Longrightarrow> covers S g \<Longrightarrow>
           \<exists>g'. dispatch i g = (Inr (), g') \<and> covers S' g'"
    and "compilable S is = Some S' \<Longrightarrow> covers S g \<Longrightarrow>
           \<exists>g'. compile is g = (Inr (), g') \<and> covers S' g'"
proof (induction S i and S "is" arbitrary: S' g and S' g
    rule: compilable_instruction_compilable.induct)
  case (1 m B v)
  from 1 have r: "ready g" by (simp add: covers_def)
  from pushes_make_number [unfolded pushes_def, rule_format, OF r, of v] 1
  show ?case by (auto simp: covers_def)
next
  case (2 m B v)
  from 2 have r: "ready g" by (simp add: covers_def)
  from make_string_ok [OF r, of v] 2
  show ?case by (auto simp: covers_def simp del: make_string.simps)
next
  case (3 m B name k)
  from 3 have r: "ready g" and k: "k \<le> 4" by (simp_all add: covers_def split: if_splits)
  from pushes_extern [OF k, of name, unfolded pushes_def, rule_format, OF r] 3 k
  show ?case by (auto simp: covers_def)
next
  case (4 m B name)
  from 4 have r: "ready g" and p: "ctx_position (g_context g) < 0" and m: "m"
    by (simp_all add: covers_def split: if_splits)
  from set_name_ok [OF r p, of name] 4 m
  show ?case by (auto simp: covers_def)
next
  case (5 m B names)
  from 5(1) obtain name where n: "names = [name]" "name \<in> set B" "S' = (True, B)"
    by (auto split: list.splits if_splits)
  from 5(2) n(2) have r: "ready g" and b: "map_of (ctx_variables (g_context g)) name \<noteq> None"
    by (simp_all add: covers_def)
  from push_reference_ok [OF r b] 5(2) n
  show ?case by (auto simp: covers_def)
next
  case (6 m B name args)
  from 6(2) obtain m1 B1 where a: "compilable (m, B) args = Some (m1, B1)"
    and n: "name \<in> set B1" and s: "S' = (True, B1)"
    by (auto split: option.splits if_splits)
  from 6(1) [OF a 6(3)] obtain g1 where g1: "compile args g = (Inr (), g1)" "covers (m1, B1) g1"
    by blast
  from g1(2) n have r: "ready g1" and b: "map_of (ctx_variables (g_context g1)) name \<noteq> None"
    by (simp_all add: covers_def)
  from emit_call_ok [OF r b, of "int (length args)"] g1 s
  show ?case by (auto simp: covers_def)
next
  case (7 m B b)
  then show ?case by simp
next
  case (8 m B params body)
  then show ?case by simp
next
  case (9 m B)
  then show ?case by simp
next
  case (10 S)
  then show ?case by simp
next
  case (11 S i "is")
  from 11(3) obtain S1 where i: "compilable_instruction S i = Some S1"
    and r: "compilable S1 is = Some S'"
    by (auto split: option.splits)
  from 11(1) [OF i 11(4)] obtain g1 where g1: "dispatch i g = (Inr (), g1)" "covers S1 g1"
    by blast
  from 11(2) [OF i r g1(2)] g1(1) show ?case by simp
qed

lemma covers_init: "covers (False, []) GeneratorX86_64Linux_init"
  by (simp add: covers_def ready_def GeneratorX86_64Linux_init_def Context_init_def)

lemma compilable_append:
  "compilable S (a @ b) = (case compilable S a of None \<Rightarrow> None | Some S1 \<Rightarrow> compilable S1 b)"
  by (induction a arbitrary: S) (simp_all split: option.splits)

section \<open>Lowering the supported programs\<close>

lemma number_lowers:
  assumes "number_text (tok_value t)"
  shows "\<exists>v. generate_expression self (Node NODE_NUMBER_LITERAL (Tok t)) = Inr [IR_MAKE_NUMBER v]"
proof -
  from assms obtain v where "py_int (tok_value t) = Inr v"
    by (auto simp: number_text_def split: sum.splits)
  then show ?thesis
    by (simp add: generate_expression_def generate_number_literal_def is_node_def
        content_of_def value_of_def)
qed

lemma string_lowers:
  assumes "quoted (tok_value t)"
  shows "generate_expression self (Node NODE_STRING_LITERAL (Tok t))
    = Inr [IR_MAKE_STRING (butlast (tl (tok_value t)))]"
  using assms
  by (simp add: generate_expression_def generate_string_literal_def is_node_def content_of_def
      value_of_def remove_quotes_def quoted_def)

lemma extern_lowers:
  assumes "quoted (tok_value s)" and "extern_count (tok_value n)"
  shows "\<exists>v. v \<le> 4 \<and> generate_expression self (Node NODE_EXTERN (Lst [Tok s, Tok n]))
     = Inr [IR_EXTERN (butlast (tl (tok_value s))) v]"
proof -
  from assms(2) obtain v where v: "py_int (tok_value n) = Inr v" "v \<le> 4"
    by (auto simp: extern_count_def split: sum.splits)
  with assms(1) show ?thesis
    by (simp add: generate_expression_def generate_extern_def is_node_def content_of_def
        value_of_def unpack2_def remove_quotes_def quoted_def)
qed

lemma identity_lowers:
  assumes "length (tok_value t) = 1"
  shows "generate_expression self (Node NODE_IDENTITY (Lst [Lst [Tok t, Lst []]]))
     = Inr [IR_PUSH_REFERENCE [tok_value t]]"
proof -
  from assms obtain c where c: "tok_value t = [c]"
    by (cases "tok_value t") simp_all
  then show ?thesis
    by (simp add: generate_expression_def generate_identity_def is_node_def content_of_def
        value_of_def unpack2_def index0_def truthy_def)
qed

lemma supported_leaf_cases:
  assumes "supported_leaf B e = Some B'"
  shows "(\<exists>t. e = Node NODE_NUMBER_LITERAL (Tok t) \<and> number_text (tok_value t) \<and> B' = B)
       \<or> (\<exists>t. e = Node NODE_STRING_LITERAL (Tok t) \<and> quoted (tok_value t)
              \<and> B' = ''malloc'' # B)
       \<or> (\<exists>s n. e = Node NODE_EXTERN (Lst [Tok s, Tok n]) \<and> quoted (tok_value s)
              \<and> extern_count (tok_value n) \<and> B' = B)
       \<or> (\<exists>t. e = Node NODE_IDENTITY (Lst [Lst [Tok t, Lst []]]) \<and> length (tok_value t) = 1
              \<and> tok_value t \<in> set B \<and> B' = B)"
  using assms
  by (cases "(B, e)" rule: supported_leaf.cases) (simp_all split: if_splits)

lemma supported_leaf_lowers:
  assumes "supported_leaf B e = Some B'"
  shows "\<exists>i. generate_expression self e = Inr [i]
           \<and> compilable_instruction (m, B) i = Some (True, B')"
proof -
  from supported_leaf_cases [OF assms]
  consider
    (number) t where "e = Node NODE_NUMBER_LITERAL (Tok t)" "number_text (tok_value t)" "B' = B"
  | (string) t where "e = Node NODE_STRING_LITERAL (Tok t)" "quoted (tok_value t)"
      "B' = ''malloc'' # B"
  | (extern) s n where "e = Node NODE_EXTERN (Lst [Tok s, Tok n])" "quoted (tok_value s)"
      "extern_count (tok_value n)" "B' = B"
  | (identity) t where "e = Node NODE_IDENTITY (Lst [Lst [Tok t, Lst []]])"
      "length (tok_value t) = 1" "tok_value t \<in> set B" "B' = B"
    by blast
  then show ?thesis
  proof cases
    case number
    from number_lowers [OF number(2), of self] number(1,3) show ?thesis by auto
  next
    case string
    from string_lowers [OF string(2), of self] string(1,3) show ?thesis by auto
  next
    case extern
    from extern_lowers [OF extern(2,3), of self] extern(1,4) show ?thesis by auto
  next
    case identity
    from identity_lowers [OF identity(2), of self] identity(1,3,4) show ?thesis by auto
  qed
qed

lemma supported_leaf_not_call: "supported_leaf B (Node NODE_FUNCTION_CALL c) = None"
proof (cases "supported_leaf B (Node NODE_FUNCTION_CALL c)")
  case None
  then show ?thesis .
next
  case (Some B')
  from supported_leaf_cases [OF Some] show ?thesis by auto
qed

lemma call_lowers:
  assumes "args_loop (IRGenerator n) args = Inr ir"
  shows "IRGenerator (Suc n) G_function_call (Node k (Lst [Lst (Tok t # keys), Lst args]))
    = Inr [IR_CALL_FUNCTION (tok_value t) ir]"
  using assms
  by (simp add: IRGenerator_Suc generate_function_call_def content_of_def unpack2_def index0_def
      value_of_def iterate_def del: IRGenerator.simps)

lemma expression_call:
  "IRGenerator (Suc n) G_expression (Node NODE_FUNCTION_CALL c)
     = IRGenerator n G_function_call (Node NODE_FUNCTION_CALL c)"
  by (simp add: IRGenerator_Suc generate_expression_def is_node_def del: IRGenerator.simps)

lemma expression_lowers:
  shows "supported_expression B e = Some B' \<Longrightarrow> size e < n \<Longrightarrow>
           \<exists>ir. IRGenerator n G_expression e = Inr ir
              \<and> compilable (m, B) ir = Some (True, B')"
    and "supported_args B as = Some B' \<Longrightarrow> size_list size as \<le> n \<Longrightarrow>
           \<exists>ir. args_loop (IRGenerator n) as = Inr ir
              \<and> compilable (m, B) ir = Some (m \<or> as \<noteq> [], B')"
proof (induction B e and B as arbitrary: B' n m and B' n m
    rule: supported_expression_supported_args.induct)
  case (1 B k c)
  show ?case
  proof (cases "k = NODE_FUNCTION_CALL")
    case False
    with 1(2) have leaf: "supported_leaf B (Node k c) = Some B'" by simp
    from 1(3) obtain n1 where n: "n = Suc n1" by (cases n) simp_all
    from supported_leaf_lowers [OF leaf, of "IRGenerator n1" m]
    obtain i where "generate_expression (IRGenerator n1) (Node k c) = Inr [i]"
      "compilable_instruction (m, B) i = Some (True, B')"
      by blast
    then show ?thesis unfolding n by (simp add: IRGenerator_Suc del: IRGenerator.simps)
  next
    case True
    with 1(2) obtain t keys args B1 where c: "c = Lst [Lst (Tok t # keys), Lst args]"
      and a: "supported_args B args = Some B1" and b: "tok_value t \<in> set B1" and B': "B' = B1"
      by (auto split: ast.splits list.splits option.splits if_splits)
    from 1(3) c obtain n2 where n: "n = Suc (Suc n2)" and s: "size_list size args \<le> n2"
      by (cases n; cases "n - 1") auto
    from 1(1) [OF True c refl refl refl refl refl refl refl a s, of m]
    obtain ir where ir: "args_loop (IRGenerator n2) args = Inr ir"
      "compilable (m, B) ir = Some (m \<or> args \<noteq> [], B1)"
      by blast
    have "IRGenerator n G_expression (Node k c) = Inr [IR_CALL_FUNCTION (tok_value t) ir]"
      unfolding n True c expression_call by (rule call_lowers [OF ir(1)])
    with ir(2) b B' show ?thesis by simp
  qed
next
  case (2 B t)
  then show ?case by simp
next
  case (3 B l)
  then show ?case by simp
next
  case (4 B)
  then show ?case by simp
next
  case (5 B a as)
  from 5(3) obtain k e B1 where a: "a = Node k e"
    and e: "supported_expression B e = Some B1" and r: "supported_args B1 as = Some B'"
    by (auto split: ast.splits option.splits)
  from 5(4) a have se: "size e < n" and sa: "size_list size as \<le> n" by simp_all
  from 5(1) [OF a e se, of m] obtain ir1 where ir1: "IRGenerator n G_expression e = Inr ir1"
    "compilable (m, B) ir1 = Some (True, B1)"
    by blast
  from 5(2) [OF a e r sa, of True] obtain ir2 where ir2: "args_loop (IRGenerator n) as = Inr ir2"
    "compilable (True, B1) ir2 = Some (True, B')"
    by auto
  have "args_loop (IRGenerator n) (a # as) = Inr (ir1 @ ir2)"
    using a ir1(1) ir2(1) by (simp add: content_of_def del: IRGenerator.simps)
  moreover have "compilable (m, B) (ir1 @ ir2) = Some (True, B')"
    using ir1(2) ir2(2) by (simp add: compilable_append)
  ultimately show ?case by simp
qed

lemma statement_lowers:
  assumes "supported_statement B s = Some B'" and "size s < n"
  shows "\<exists>ir. IRGenerator n G_statement s = Inr ir \<and> compilable (m, B) ir = Some (True, B')"
proof -
  from assms(1) obtain k k2 c where s: "s = Node k (Node k2 c)"
    by (cases "(B, s)" rule: supported_statement.cases) simp_all
  from assms(2) s obtain n2 where n: "n = Suc (Suc n2)" and sc: "size c < n2"
    by (cases n; cases "n - 1") auto
  consider (assignment) "k2 = NODE_ASSIGNMENT"
    | (call) "k2 = NODE_FUNCTION_CALL"
    | (other) "k2 \<noteq> NODE_ASSIGNMENT" "k2 \<noteq> NODE_FUNCTION_CALL"
    by blast
  then show ?thesis
  proof cases
    case assignment
    with assms(1) s have "supported_assignment B c = Some B'" by simp
    then obtain t e B1 where c: "c = Lst [Lst [Tok t, Lst []], e]"
      and e: "supported_expression B e = Some B1" and B': "B' = tok_value t # B1"
      by (cases "(B, c)" rule: supported_assignment.cases) (auto split: option.splits)
    from sc c have "size e < n2" by simp
    from expression_lowers(1) [OF e this, of m]
    obtain ir where ir: "IRGenerator n2 G_expression e = Inr ir"
      "compilable (m, B) ir = Some (True, B1)"
      by blast
    have "IRGenerator n G_statement s = Inr (ir @ [IR_SET_NAME (tok_value t)])"
      unfolding n s assignment c using ir(1)
      by (simp add: IRGenerator_Suc generate_statement_def generate_assignment_def content_of_def
          is_node_def unpack2_def value_of_def truthy_def del: IRGenerator.simps)
    moreover have "compilable (m, B) (ir @ [IR_SET_NAME (tok_value t)]) = Some (True, B')"
      using ir(2) B' by (simp add: compilable_append)
    ultimately show ?thesis by blast
  next
    case call
    with assms(1) s have e: "supported_expression B (Node NODE_FUNCTION_CALL c) = Some B'"
      by simp
    then obtain t keys args B1 where c: "c = Lst [Lst (Tok t # keys), Lst args]"
      and a: "supported_args B args = Some B1" and b: "tok_value t \<in> set B1" and B': "B' = B1"
      by (auto split: ast.splits list.splits option.splits if_splits)
    from sc c have "size_list size args \<le> n2" by simp
    from expression_lowers(2) [OF a this, of m]
    obtain ir where ir: "args_loop (IRGenerator n2) args = Inr ir"
      "compilable (m, B) ir = Some (m \<or> args \<noteq> [], B1)"
      by blast
    have "IRGenerator n G_statement s = IRGenerator (Suc n2) G_function_call (Node k2 c)"
      unfolding n s call
      by (simp add: IRGenerator_Suc generate_statement_def content_of_def is_node_def
          del: IRGenerator.simps)
    also have "\<dots> = Inr [IR_CALL_FUNCTION (tok_value t) ir]"
      unfolding c by (rule call_lowers [OF ir(1)])
    finally show ?thesis using ir(2) b B' by simp
  next
    case other
    with assms(1) s have e: "supported_expression B (Node k2 c) = Some B'" by simp
    from sc have "size (Node k2 c) < Suc n2" by simp
    from expression_lowers(1) [OF e this, of m]
    obtain ir where ir: "IRGenerator (Suc n2) G_expression (Node k2 c) = Inr ir"
      "compilable (m, B) ir = Some (True, B')"
      by blast
    have "IRGenerator n G_statement s = IRGenerator (Suc n2) G_expression (Node k2 c)"
      unfolding n s using other
      by (simp add: IRGenerator_Suc generate_statement_def content_of_def is_node_def
          del: IRGenerator.simps)
    with ir show ?thesis by simp
  qed
qed

lemma statements_lower:
  "supported_statements B ss = Some B' \<Longrightarrow> size_list size ss \<le> n \<Longrightarrow>
     \<exists>ir S. program_loop (IRGenerator n) ss = Inr ir \<and> compilable (m, B) ir = Some S"
proof (induction ss arbitrary: B m)
  case Nil
  then show ?case by simp
next
  case (Cons s ss)
  from Cons.prems(1) obtain B1 where s: "supported_statement B s = Some B1"
    and r: "supported_statements B1 ss = Some B'"
    by (auto split: option.splits)
  from Cons.prems(2) have ss: "size s < n" and sr: "size_list size ss \<le> n" by simp_all
  from statement_lowers [OF s ss, of m] obtain ir1 where ir1: "IRGenerator n G_statement s = Inr ir1"
    "compilable (m, B) ir1 = Some (True, B1)"
    by blast
  from Cons.IH [OF r sr, of True] obtain ir2 S where ir2: "program_loop (IRGenerator n) ss = Inr ir2"
    "compilable (True, B1) ir2 = Some S"
    by blast
  have "program_loop (IRGenerator n) (s # ss) = Inr (ir1 @ ir2)"
    using ir1(1) ir2(1) by (simp del: IRGenerator.simps)
  moreover have "compilable (m, B) (ir1 @ ir2) = Some S"
    using ir1(2) ir2(2) by (simp add: compilable_append)
  ultimately show ?case by blast
qed

lemma program_lowers:
  assumes "supported_program a" and "enough a \<le> n"
  shows "\<exists>ir S. ir_of n a = Inr ir \<and> compilable (False, []) ir = Some S"
proof -
  from assms(1) obtain ss B where a: "a = Lst ss" and s: "supported_statements [] ss = Some B"
    by (auto simp: supported_program_def split: ast.splits option.splits)
  from assms(2) a obtain n1 where n: "n = Suc n1" and l: "size_list size ss \<le> n1"
    by (cases n) (auto simp: enough_def)
  from statements_lower [OF s l, of False]
  show ?thesis unfolding n a
    by (simp add: ir_of_def IRGenerator_Suc generate_program_def iterate_def
        del: IRGenerator.simps)
qed

section \<open>The texts that int() accepts\<close>

lemma digit_not_space: "decimal_digit c \<Longrightarrow> \<not> int_space c"
  by (auto simp: decimal_digit_def int_space_def)

lemma grouped_digits_all: "s \<noteq> [] \<Longrightarrow> list_all decimal_digit s \<Longrightarrow> grouped_digits s"
proof (induction s rule: grouped_digits.induct)
  case 1
  then show ?case by simp
next
  case (2 c)
  then show ?case by simp
next
  case (3 c d s)
  from 3(4) have "d \<noteq> CHR ''_''" by (auto simp: decimal_digit_def)
  with 3 show ?case by simp
qed

lemma digits_body:
  assumes "s \<noteq> []" and "list_all decimal_digit s"
  shows "strip_space s = s" and "hd s \<notin> {CHR ''-'', CHR ''+''}"
    and "filter (\<lambda>c. c \<noteq> CHR ''_'') s = s"
proof -
  from assms have h: "decimal_digit (hd s)" and l: "decimal_digit (last s)"
    by (simp_all add: list_all_iff)
  from h assms(1) have d1: "dropWhile int_space s = s"
    by (cases s) (simp_all add: digit_not_space)
  from l assms(1) have d2: "dropWhile int_space (rev s) = rev s"
    by (cases "rev s") (simp_all add: digit_not_space last_rev [symmetric] hd_rev)
  show "strip_space s = s" by (simp add: strip_space_def d1 d2)
  from h show "hd s \<notin> {CHR ''-'', CHR ''+''}" by (auto simp: decimal_digit_def)
  from assms(2) show "filter (\<lambda>c. c \<noteq> CHR ''_'') s = s"
    by (induction s) (auto simp: decimal_digit_def)
qed

lemma py_int_digits:
  assumes "s \<noteq> []" and "list_all decimal_digit s"
  shows "py_int s = (if length s \<le> 4300 then Inr (int (val s)) else Inl (ValueError []))"
  using digits_body [OF assms] grouped_digits_all [OF assms]
  by (simp add: py_int_def Let_def int_max_str_digits_def)

section \<open>The parser on the scenarios of the specification\<close>

lemma parse_assignment:
  "parse 20 (add_tokens source_assignment Parser_init) =
     (Inr True,
      \<lparr>p_tokens = [],
       p_ast = Lst [Node NODE_STATEMENT (Node NODE_ASSIGNMENT
         (Lst [Lst [Tok (Token TOKEN_IDENTIFIER ''x'' 1), Lst []],
               Node NODE_NUMBER_LITERAL (Tok (Token TOKEN_NUMBER ''5'' 1))]))]\<rparr>)"
  by (simp add: parse_eval source_assignment_def del: Parser.simps)

lemma parse_extern_assignment:
  "parse 20 (add_tokens source_extern_assignment Parser_init) =
     (Inr True,
      \<lparr>p_tokens = [],
       p_ast = Lst [Node NODE_STATEMENT (Node NODE_ASSIGNMENT
         (Lst [Lst [Tok (Token TOKEN_IDENTIFIER ''x'' 1), Lst []],
               Node NODE_EXTERN (Lst [Tok (Token TOKEN_STRING ''\"puts\"'' 1),
                                      Tok (Token TOKEN_NUMBER ''1'' 1)])]))]\<rparr>)"
  by (simp add: parse_eval source_extern_assignment_def del: Parser.simps)

lemma lower_extern_assignment:
  "ir_of 4 (p_ast (snd (parse 20 (add_tokens source_extern_assignment Parser_init))))
     = Inr [IR_EXTERN ''puts'' 1, IR_SET_NAME ''x'']"
  unfolding parse_extern_assignment
  by (simp add: ir_eval val_def digit_val_def del: IRGenerator.simps)

lemma lower_extern_statement:
  "ir_of 4 (Lst [Node NODE_STATEMENT (Node NODE_EXTERN
       (Lst [Tok (Token TOKEN_STRING ''\"puts\"'' 1), Tok (Token TOKEN_NUMBER ''1'' 1)]))])
     = Inr [IR_EXTERN ''puts'' 1]"
  by (simp add: ir_eval val_def digit_val_def del: IRGenerator.simps)

lemma parse_boolean_statement:
  "parse 20 (add_tokens source_boolean Parser_init) =
     (Inr True,
      \<lparr>p_tokens = [],
       p_ast = Lst [Node NODE_STATEMENT (Node NODE_BOOLEAN (Tok (Token TOKEN_KEYWORD ''True'' 1)))]\<rparr>)"
  by (simp add: parse_eval source_boolean_def del: Parser.simps)

lemma parse_unclosed_block:
  "parse 20 (add_tokens source_unclosed_block Parser_init)
     = (Inl UnexpectedEOF, add_tokens source_unclosed_block Parser_init)"
  by (simp add: parse_eval source_unclosed_block_def del: Parser.simps)

lemma raise_ParseError_eof: "(raise_ParseError t = UnexpectedEOF) = (tok_type t = TOKEN_EOF)"
  by (simp add: raise_ParseError_def)

lemma unsupported_expression_kind:
  assumes "k \<notin> {NODE_IDENTITY, NODE_STRING_LITERAL, NODE_NUMBER_LITERAL, NODE_BOOLEAN,
                 NODE_FUNCTION, NODE_FUNCTION_CALL, NODE_EXTERN}"
  shows "generate_expression self (Node k c) = Inl NotImplementedError"
  using assms by (simp add: generate_expression_def is_node_def)

lemma parse_call:
  "parse 30 (add_tokens source_call Parser_init) =
     (Inr True,
      \<lparr>p_tokens = [],
       p_ast = Lst
         [Node NODE_STATEMENT (Node NODE_ASSIGNMENT
            (Lst [Lst [Tok (Token TOKEN_IDENTIFIER ''x'' 1), Lst []],
                  Node NODE_NUMBER_LITERAL (Tok (Token TOKEN_NUMBER ''5'' 1))])),
          Node NODE_STATEMENT (Node NODE_ASSIGNMENT
            (Lst [Lst [Tok (Token TOKEN_IDENTIFIER ''p'' 1), Lst []],
                  Node NODE_EXTERN (Lst [Tok (Token TOKEN_STRING ''\"puts\"'' 1),
                                         Tok (Token TOKEN_NUMBER ''1'' 1)])])),
          Node NODE_STATEMENT (Node NODE_FUNCTION_CALL
            (Lst [Lst [Tok (Token TOKEN_IDENTIFIER ''p'' 1), Lst []],
                  Lst [Node NODE_ARG (Node NODE_IDENTITY
                         (Lst [Lst [Tok (Token TOKEN_IDENTIFIER ''x'' 1), Lst []]])),
                       Node NODE_ARG (Node NODE_STRING_LITERAL
                         (Tok (Token TOKEN_STRING ''\"hi\"'' 1)))]]))]\<rparr>)"
  by (simp add: parse_eval source_call_def del: Parser.simps)

lemma number_text_evals: "number_text ''5''" "extern_count ''1''"
  by (simp_all add: number_text_def extern_count_def py_int_def Let_def strip_space_def
      int_space_def decimal_digit_def int_max_str_digits_def val_def digit_val_def)

section \<open>The claims about the parser and the lowering\<close>

text \<open>
  C2. The claim: an extern declaration is a statement form, so the tokens of
  \<open>extern("puts", 1);\<close> are accepted and lower to the single instruction EXTERN("puts", 1).
  The code: \<open>parse_program\<close> and \<open>parse_statements\<close> let the keyword through, and
  \<open>parse_statement\<close>, whose docstring lists \<open>statement \<rightarrow> extern\<close>, has no branch for it; the
  call raises a ParseError that carries the \<open>extern\<close> token and leaves the parser as it
  was. Nothing is lowered.
\<close>

theorem extern_statement_rejected:
  "parse 20 (add_tokens source_extern_statement Parser_init)
     = (Inl (ParseError (Token TOKEN_KEYWORD ''extern'' 1)),
        add_tokens source_extern_statement Parser_init)"
  by (simp add: parse_eval source_extern_statement_def del: Parser.simps)

text \<open>
  C3. The claim: \<open>parse\<close> returns true only when every token up to and including the
  end-of-input token was consumed, and false when the descent stops early, as with a \<open>}\<close>
  after a complete statement. The code: on the tokens of \<open>1; }\<close> the descent stops with
  the \<open>}\<close> and the end-of-input token unread; \<open>tokens.pop()\<close> takes the last token, which is
  the end-of-input token that \<open>parse\<close> appended, so \<open>parse\<close> returns true, stores the one
  statement and empties the buffer.
\<close>

theorem trailing_brace_accepted:
  "parse_program 20 (source_trailing_brace @ [Token TOKEN_EOF ''$'' 1])
     = Inr (Lst [Node NODE_STATEMENT (Node NODE_NUMBER_LITERAL (Tok (Token TOKEN_NUMBER ''1'' 1)))],
            [Token TOKEN_RCURLYBRACKET ''}'' 1, Token TOKEN_EOF ''$'' 1])
   \<and> parse 20 (add_tokens source_trailing_brace Parser_init)
     = (Inr True,
        \<lparr>p_tokens = [],
         p_ast = Lst [Node NODE_STATEMENT
           (Node NODE_NUMBER_LITERAL (Tok (Token TOKEN_NUMBER ''1'' 1)))]\<rparr>)"
  by (simp add: parse_eval source_trailing_brace_def del: Parser.simps)

text \<open>
  C6. The claim: a statement cut off in the middle raises UnexpectedEOF, which is raised
  exactly when the offending token is the end-of-input token. The code: the tokens of
  \<open>x = extern("puts"\<close> end where \<open>parse_extern\<close> wants the comma. The token it pops there is
  the end-of-input token, and the function raises \<open>ParseError(string)\<close>, with the string
  token before it, so the caller gets a ParseError for \<open>"puts"\<close> and not UnexpectedEOF.
\<close>

theorem extern_cut_off_not_eof:
  "parse 20 (add_tokens source_extern_cut_off Parser_init)
     = (Inl (ParseError (Token TOKEN_STRING ''\"puts\"'' 1)),
        add_tokens source_extern_cut_off Parser_init)"
  by (simp add: parse_eval source_extern_cut_off_def del: Parser.simps)

text \<open>
  C7. An assignment statement whose target has no keys lowers to the code of the
  right-hand expression followed by SET_NAME of the target's name; an exception of the
  right-hand expression is the exception of the statement. The recursion budget of the
  statement is two more than that of the expression.
\<close>

theorem assignment_lowering:
  "IRGenerator (Suc (Suc n)) G_statement
       (Node NODE_STATEMENT (Node NODE_ASSIGNMENT (Lst [Lst [Tok target, Lst []], rhs])))
     = (case IRGenerator n G_expression rhs of
          Inl e \<Rightarrow> Inl e
        | Inr ir \<Rightarrow> Inr (ir @ [IR_SET_NAME (tok_value target)]))"
  by (simp add: IRGenerator_Suc generate_statement_def generate_assignment_def tree_defs
      del: IRGenerator.simps split: sum.splits)

theorem assignment_lowering_witness:
  "ir_of 4 (p_ast (snd (parse 20 (add_tokens source_assignment Parser_init))))
     = Inr [IR_MAKE_NUMBER 5, IR_SET_NAME ''x'']"
proof -
  have rhs: "IRGenerator 1 G_expression (Node NODE_NUMBER_LITERAL (Tok (Token TOKEN_NUMBER ''5'' 1)))
    = Inr [IR_MAKE_NUMBER 5]"
    by (simp add: generate_expression_def generate_number_literal_def tree_defs val_def
        digit_val_def)
  have "IRGenerator 3 G_statement
       (Node NODE_STATEMENT (Node NODE_ASSIGNMENT
         (Lst [Lst [Tok (Token TOKEN_IDENTIFIER ''x'' 1), Lst []],
               Node NODE_NUMBER_LITERAL (Tok (Token TOKEN_NUMBER ''5'' 1))])))
     = Inr [IR_MAKE_NUMBER 5, IR_SET_NAME ''x'']"
    using assignment_lowering [of 1 "Token TOKEN_IDENTIFIER ''x'' 1"
        "Node NODE_NUMBER_LITERAL (Tok (Token TOKEN_NUMBER ''5'' 1))"]
    unfolding rhs by (simp add: numeral_3_eq_3 del: IRGenerator.simps)
  then show ?thesis
    unfolding parse_assignment
    by (simp add: ir_of_def IRGenerator_numeral(1) generate_program_def iterate_def
        del: IRGenerator.simps)
qed

text \<open>
  C1. The claim: whatever \<open>parse\<close> accepts goes through the lowering and \<open>compile\<close>
  without an exception, for every statement form. The code: the tokens of \<open>True;\<close> are
  accepted and lower to MAKE_BOOLEAN, for which the table of \<open>compile\<close> has no method
  (KeyError).
\<close>

theorem boolean_statement_counterexample:
  "fst (parse 20 (add_tokens source_boolean Parser_init)) = Inr True
   \<and> ir_of 4 (p_ast (snd (parse 20 (add_tokens source_boolean Parser_init))))
       = Inr [IR_MAKE_BOOLEAN True]
   \<and> compile [IR_MAKE_BOOLEAN True] GeneratorX86_64Linux_init
       = (Inl KeyError, GeneratorX86_64Linux_init)"
  unfolding parse_boolean_statement
  by (simp add: ir_eval del: IRGenerator.simps)

text \<open>
  C1, as the code has it. When the statements of the accepted program are of the set
  above (number literals whose text \<open>int()\<close> accepts, string literals in quotes, extern
  declarations of at most four parameters, references without keys to bound names of one
  character, calls of bound names with such arguments, and assignments of such an
  expression to a name without keys, where an assignment binds its name and a string
  literal binds malloc), the lowering returns with any recursion budget from \<open>enough\<close> of
  the tree on, and \<open>compile\<close> on a new generator returns without an exception.
\<close>

theorem supported_program_compiles:
  assumes "fst (parse n p) = Inr True"
    and "supported_program (p_ast (snd (parse n p)))"
  shows "\<exists>ir g. ir_of (enough (p_ast (snd (parse n p))) + j) (p_ast (snd (parse n p))) = Inr ir
           \<and> compile ir GeneratorX86_64Linux_init = (Inr (), g)"
proof -
  have "enough (p_ast (snd (parse n p))) \<le> enough (p_ast (snd (parse n p))) + j" by simp
  from program_lowers [OF assms(2) this]
  obtain ir S where ir: "ir_of (enough (p_ast (snd (parse n p))) + j) (p_ast (snd (parse n p))) = Inr ir"
    "compilable (False, []) ir = Some S"
    by blast
  from compile_compilable(2) [OF ir(2) covers_init]
  obtain g where "compile ir GeneratorX86_64Linux_init = (Inr (), g)" by blast
  with ir(1) show ?thesis by blast
qed

theorem supported_program_compiles_witness:
  "fst (parse 30 (add_tokens source_call Parser_init)) = Inr True
   \<and> supported_program (p_ast (snd (parse 30 (add_tokens source_call Parser_init))))
   \<and> (\<exists>ir g. ir_of (enough (p_ast (snd (parse 30 (add_tokens source_call Parser_init)))) + 0)
                  (p_ast (snd (parse 30 (add_tokens source_call Parser_init)))) = Inr ir
            \<and> compile ir GeneratorX86_64Linux_init = (Inr (), g))"
proof -
  have a: "fst (parse 30 (add_tokens source_call Parser_init)) = Inr True"
    unfolding parse_call by simp
  have b: "supported_program (p_ast (snd (parse 30 (add_tokens source_call Parser_init))))"
    unfolding parse_call
    by (simp add: supported_program_def quoted_def number_text_evals)
  from supported_program_compiles [OF a b, of 0] a b show ?thesis by blast
qed

end
